theory Spec2Isabelle
  imports Main
begin

section \<open>Strings\<close>

text \<open>
  Python strings are modelled as \<open>string\<close>, one \<open>char\<close> per code point, for the code
  points 0 to 255. On that range \<open>str.lower\<close> adds 32 to the letters A to Z and to the
  Latin-1 capitals 192 to 222 (215, the multiplication sign, apart), and \<open>str.strip\<close>
  removes the characters for which \<open>str.isspace\<close> holds.
\<close>

definition lower_char :: "char \<Rightarrow> char" where
  "lower_char c =
     (let n = (of_char c :: nat)
      in if (65 \<le> n \<and> n \<le> 90) \<or> (192 \<le> n \<and> n \<le> 222 \<and> n \<noteq> 215)
         then char_of (n + 32) else c)"

definition lower :: "string \<Rightarrow> string" where
  "lower s = map lower_char s"

definition isspace :: "char \<Rightarrow> bool" where
  "isspace c =
     (let n = (of_char c :: nat)
      in (9 \<le> n \<and> n \<le> 13) \<or> (28 \<le> n \<and> n \<le> 32) \<or> n = 133 \<or> n = 160)"

definition strip :: "string \<Rightarrow> string" where
  "strip s = rev (dropWhile isspace (rev (dropWhile isspace s)))"

text \<open>\<open>s.split(sep)\<close> for a separator of one character: never the empty list.\<close>

fun split :: "char \<Rightarrow> string \<Rightarrow> string list" where
  "split sep [] = [[]]"
| "split sep (c # cs) =
     (if c = sep then [] # split sep cs
      else (case split sep cs of [] \<Rightarrow> [[c]] | p # ps \<Rightarrow> (c # p) # ps))"

text \<open>\<open>sep.join(parts)\<close>.\<close>

fun join :: "string \<Rightarrow> string list \<Rightarrow> string" where
  "join sep [] = []"
| "join sep [p] = p"
| "join sep (p # q # ps) = p @ sep @ join sep (q # ps)"

section \<open>Inspector: type mapping\<close>

text \<open>
  The dictionary \<open>type_mappings\<close> of \<open>SchemaInspector.map_data_type\<close>, in the order of
  the source. No inner dictionary repeats a key, so a lookup in the association list is
  the lookup in the dictionary.
\<close>

definition type_mappings :: "((string \<times> string) \<times> (string \<times> string) list) list" where
  "type_mappings =
   [((''mysql'', ''postgresql''),
       [(''int'', ''integer''), (''bigint'', ''bigint''), (''varchar'', ''varchar''),
        (''text'', ''text''), (''datetime'', ''timestamp''), (''timestamp'', ''timestamp''),
        (''float'', ''float''), (''double'', ''double precision''), (''decimal'', ''decimal''),
        (''tinyint(1)'', ''boolean'')]),
    ((''mysql'', ''oracle''),
       [(''int'', ''NUMBER(10)''), (''bigint'', ''NUMBER(19)''), (''varchar'', ''VARCHAR2''),
        (''text'', ''CLOB''), (''datetime'', ''TIMESTAMP''), (''timestamp'', ''TIMESTAMP''),
        (''float'', ''FLOAT''), (''double'', ''FLOAT''), (''decimal'', ''NUMBER''),
        (''tinyint(1)'', ''NUMBER(1)'')]),
    ((''mysql'', ''sqlserver''),
       [(''int'', ''INT''), (''bigint'', ''BIGINT''), (''varchar'', ''VARCHAR''),
        (''text'', ''TEXT''), (''datetime'', ''DATETIME''), (''timestamp'', ''DATETIME''),
        (''float'', ''FLOAT''), (''double'', ''FLOAT''), (''decimal'', ''DECIMAL''),
        (''tinyint(1)'', ''BIT'')]),
    ((''postgresql'', ''mysql''),
       [(''integer'', ''INT''), (''bigint'', ''BIGINT''), (''varchar'', ''VARCHAR''),
        (''text'', ''TEXT''), (''timestamp'', ''DATETIME''), (''float'', ''FLOAT''),
        (''double precision'', ''DOUBLE''), (''numeric'', ''DECIMAL''),
        (''boolean'', ''TINYINT(1)'')]),
    ((''postgresql'', ''oracle''),
       [(''integer'', ''NUMBER(10)''), (''bigint'', ''NUMBER(19)''), (''varchar'', ''VARCHAR2''),
        (''text'', ''CLOB''), (''timestamp'', ''TIMESTAMP''), (''float'', ''FLOAT''),
        (''double precision'', ''FLOAT''), (''numeric'', ''NUMBER''),
        (''boolean'', ''NUMBER(1)'')]),
    ((''postgresql'', ''sqlserver''),
       [(''integer'', ''INT''), (''bigint'', ''BIGINT''), (''varchar'', ''VARCHAR''),
        (''text'', ''TEXT''), (''timestamp'', ''DATETIME''), (''float'', ''FLOAT''),
        (''double precision'', ''FLOAT''), (''numeric'', ''DECIMAL''),
        (''boolean'', ''BIT'')]),
    ((''oracle'', ''mysql''),
       [(''number(10)'', ''INT''), (''number(19)'', ''BIGINT''), (''varchar2'', ''VARCHAR''),
        (''clob'', ''TEXT''), (''timestamp'', ''DATETIME''), (''float'', ''FLOAT''),
        (''number'', ''DECIMAL''), (''number(1)'', ''TINYINT(1)'')]),
    ((''oracle'', ''postgresql''),
       [(''number(10)'', ''INTEGER''), (''number(19)'', ''BIGINT''), (''varchar2'', ''VARCHAR''),
        (''clob'', ''TEXT''), (''timestamp'', ''TIMESTAMP''), (''float'', ''FLOAT''),
        (''number'', ''NUMERIC''), (''number(1)'', ''BOOLEAN'')]),
    ((''oracle'', ''sqlserver''),
       [(''number(10)'', ''INT''), (''number(19)'', ''BIGINT''), (''varchar2'', ''VARCHAR''),
        (''clob'', ''TEXT''), (''timestamp'', ''DATETIME''), (''float'', ''FLOAT''),
        (''number'', ''DECIMAL''), (''number(1)'', ''BIT'')]),
    ((''sqlserver'', ''mysql''),
       [(''int'', ''INT''), (''bigint'', ''BIGINT''), (''varchar'', ''VARCHAR''),
        (''text'', ''TEXT''), (''datetime'', ''DATETIME''), (''float'', ''FLOAT''),
        (''decimal'', ''DECIMAL''), (''bit'', ''TINYINT(1)'')]),
    ((''sqlserver'', ''postgresql''),
       [(''int'', ''INTEGER''), (''bigint'', ''BIGINT''), (''varchar'', ''VARCHAR''),
        (''text'', ''TEXT''), (''datetime'', ''TIMESTAMP''), (''float'', ''FLOAT''),
        (''decimal'', ''NUMERIC''), (''bit'', ''BOOLEAN'')]),
    ((''sqlserver'', ''oracle''),
       [(''int'', ''NUMBER(10)''), (''bigint'', ''NUMBER(19)''), (''varchar'', ''VARCHAR2''),
        (''text'', ''CLOB''), (''datetime'', ''TIMESTAMP''), (''float'', ''FLOAT''),
        (''decimal'', ''NUMBER''), (''bit'', ''NUMBER(1)'')])]"

text \<open>
  \<open>map_data_type(source_type, source_db_type, target_db_type)\<close>. The parameter
  \<open>source_type\<close> is rebound to its lowercase form in the first statement, before the
  comparison of the two engines. \<open>mapping.get(base_type)\<close> is \<open>map_of\<close>; a value is
  taken only when it is truthy, that is, a non-empty string. The warning that precedes
  the last \<open>return\<close> goes to the logger and is not part of the result.
\<close>

definition map_data_type :: "string \<Rightarrow> string \<Rightarrow> string \<Rightarrow> string" where
  "map_data_type source_type0 source_db_type target_db_type =
     (let source_type = lower source_type0
      in if source_db_type = target_db_type then source_type
         else
           let base_type = lower (strip (hd (split CHR ''('' source_type)));
               mapping = (case map_of type_mappings (source_db_type, target_db_type) of
                            None \<Rightarrow> [] | Some d \<Rightarrow> d);
               mapped_type = map_of mapping base_type
           in case (if mapped_type = Some [] then None else mapped_type) of
                Some t \<Rightarrow> t
              | None \<Rightarrow>
                  (case (if CHR ''('' \<in> set source_type
                         then (if map_of mapping base_type = Some [] then None
                               else map_of mapping base_type)
                         else None) of
                     Some base_mapped \<Rightarrow>
                       (let precision_part =
                              hd (split CHR '')'' (split CHR ''('' source_type ! 1))
                        in base_mapped @ ''('' @ precision_part @ '')'')
                   | None \<Rightarrow> source_type))"

section \<open>Inspector: CREATE TABLE\<close>

text \<open>
  A column dictionary as \<open>inspect_table\<close> builds it (the keys \<open>default\<close> and \<open>table\<close>
  carry a prime here). \<open>default'\<close> is \<open>None\<close> when the
  key is absent, which \<open>col.get("default", "")\<close> reads as the empty string.
\<close>

record column =
  name :: string
  type :: string
  nullable :: bool
  default' :: "string option"

record table_schema =
  table' :: string
  columns :: "column list"
  primary_keys :: "string list"
  indices :: "(string \<times> string list) list"

text \<open>The body of the loop over the columns: one entry of \<open>column_defs\<close>.\<close>

definition column_def :: "string \<Rightarrow> string \<Rightarrow> column \<Rightarrow> string" where
  "column_def source_db_type target_db_type col =
     (let col_type = map_data_type (type col) source_db_type target_db_type;
          nullable_s = (if nullable col then [] else ''NOT NULL'');
          default0 = (case default' col of None \<Rightarrow> [] | Some d \<Rightarrow> d);
          default_s = (if default0 \<noteq> [] \<and> lower default0 \<noteq> ''null'' \<and> default0 \<noteq> []
                       then ''DEFAULT '' @ default0 else [])
      in strip (''    '' @ name col @ '' '' @ col_type @ '' '' @ nullable_s @ '' '' @ default_s))"

text \<open>
  \<open>generate_create_table_sql(table_schema, source_db_type, target_db_type,
  target_table_name)\<close>. The optional name is used when it is given and not empty
  (\<open>target_table_name or table_schema["table"]\<close>); the loop appends to \<open>column_defs\<close>.
\<close>

definition generate_create_table_sql ::
  "table_schema \<Rightarrow> string \<Rightarrow> string \<Rightarrow> string option \<Rightarrow> string" where
  "generate_create_table_sql table_schema source_db_type target_db_type target_table_name =
     (let table_name = (case target_table_name of
                          None \<Rightarrow> table' table_schema
                        | Some n \<Rightarrow> if n = [] then table' table_schema else n);
          sql = (if target_db_type = ''oracle''
                 then ''CREATE TABLE '' @ table_name @ '' (\<newline>''
                 else ''CREATE TABLE IF NOT EXISTS '' @ table_name @ '' (\<newline>'');
          column_defs = foldl (\<lambda>defs col. defs @ [column_def source_db_type target_db_type col])
                          [] (columns table_schema);
          column_defs = (if primary_keys table_schema \<noteq> []
                         then column_defs @
                                [''    PRIMARY KEY ('' @ join '', '' (primary_keys table_schema) @ '')'']
                         else column_defs);
          sql = sql @ join '',\<newline>'' column_defs;
          sql = sql @ ''\<newline>)'';
          sql = (if target_db_type = ''mysql''
                 then sql @ '' ENGINE=InnoDB DEFAULT CHARSET=utf8mb4'' else sql)
      in sql)"

text \<open>
  The entries that the statement is to hold between its parentheses, by the spec: one
  for each column, in the order of the schema, and after them one \<open>PRIMARY KEY\<close> clause
  that lists the key columns in their order, when there are any. The lists are written
  out with \<open>concat\<close>, apart from \<open>join\<close>.
\<close>

definition entries :: "table_schema \<Rightarrow> string \<Rightarrow> string \<Rightarrow> string list" where
  "entries S source_db_type target_db_type =
     map (column_def source_db_type target_db_type) (columns S)
     @ (case primary_keys S of
          [] \<Rightarrow> []
        | k # ks \<Rightarrow> [''    PRIMARY KEY ('' @ k @ concat (map ((@) '', '') ks) @ '')''])"

text \<open>
  A schema to try the statements on: the table \<open>people\<close> with the key \<open>id\<close>, a name
  and a flag, as MySQL describes it.
\<close>

definition people :: table_schema where
  "people =
     \<lparr>table' = ''people'',
      columns =
        [\<lparr>name = ''id'', type = ''INT'', nullable = False, default' = Some ''NULL''\<rparr>,
         \<lparr>name = ''name'', type = ''VARCHAR(50)'', nullable = True, default' = None\<rparr>,
         \<lparr>name = ''active'', type = ''TINYINT(1)'', nullable = True, default' = Some ''1''\<rparr>],
      primary_keys = [''id''],
      indices = []\<rparr>"

section \<open>Migrator: state and environment\<close>

text \<open>
  \<open>str.upper\<close> on the code points 0 to 255: the letters a to z and the Latin-1 small
  letters 224 to 254 (247, the division sign, apart) lose 32, and the sharp s, 223,
  becomes \<open>SS\<close>. The capitals of 181 and 255 lie beyond 255; database names are taken
  to be free of these two.
\<close>

definition upper_char :: "char \<Rightarrow> string" where
  "upper_char c =
     (let n = (of_char c :: nat)
      in if (97 \<le> n \<and> n \<le> 122) \<or> (224 \<le> n \<and> n \<le> 254 \<and> n \<noteq> 247)
         then [char_of (n - 32)]
         else if n = 223 then ''SS'' else [c])"

definition upper :: "string \<Rightarrow> string" where
  "upper s = concat (map upper_char s)"

text \<open>An optional string inside an f-string: \<open>None\<close> is printed as \<open>None\<close>.\<close>

definition str_opt :: "string option \<Rightarrow> string" where
  "str_opt s = (case s of None \<Rightarrow> ''None'' | Some x \<Rightarrow> x)"

text \<open>
  The dictionaries passed to \<open>_update_progress\<close>. A key that a call leaves out is
  \<open>None\<close>. The keys \<open>message\<close> (a text for the user) and \<open>elapsed_time\<close> (wall-clock
  time) are left out of the model: nothing in the migrator reads them.
\<close>

datatype job_status = In_progress | Completed | Cancelled | Error

record progress_data =
  status :: job_status
  current_table :: "string option"
  tables_completed :: "nat option"
  tables_failed :: "(string \<times> string) list option"
  total_tables :: "nat option"
  current_progress :: "int option"
  total_rows :: "int option"

text \<open>
  An object passed as \<open>progress_callback\<close>: its truth value, which is what
  \<open>if progress_callback:\<close> tests, and the callable itself. A function has the truth
  value \<open>True\<close>; a callable object may define it otherwise.
\<close>

datatype 'cb callback = Callback bool 'cb

fun truth :: "'cb callback \<Rightarrow> bool" where
  "truth (Callback b f) = b"

text \<open>The arguments with which \<open>migrate_tables\<close> hands \<open>_migrate_tables_sync\<close> to the pool.\<close>

datatype job = Job string string string string "string list" string string string

text \<open>
  The \<open>DatabaseMigrator\<close> object and what it acts on. \<open>engines\<close> is the connector's
  dictionary, reduced to the engine type of each connection id; \<open>progress_callbacks\<close>
  and \<open>cancel_flags\<close> are the object's two dictionaries; \<open>executor\<close> lists the jobs
  submitted to the thread pool. \<open>calls\<close> records every call of a progress callback,
  oldest first, with the callback that received it, and \<open>target\<close> is the content of
  the target database, one list of rows for each table name. \<open>'cb\<close> is the type of
  callables and \<open>'r\<close> the type of rows.
\<close>

record ('cb, 'r) migrator =
  engines :: "string \<rightharpoonup> string"
  progress_callbacks :: "string \<rightharpoonup> 'cb callback"
  cancel_flags :: "string \<rightharpoonup> bool"
  executor :: "job list"
  calls :: "('cb callback \<times> progress_data) list"
  target :: "string \<Rightarrow> 'r list"

text \<open>
  How the two databases answer while one table is copied. A result \<open>Inl e\<close>, or
  \<open>Some e\<close> for a statement without result, is an exception whose \<open>str\<close> is \<open>e\<close>.
  \<^item> \<open>inspect_table_res\<close>: \<open>inspector.inspect_table\<close>.
  \<^item> \<open>create_table_res\<close>: opening the target connection and executing the given
    \<open>CREATE TABLE\<close> statement.
  \<^item> \<open>row_count_res\<close>: the counting query of \<open>_estimate_row_count\<close>.
  \<^item> \<open>primary_key_res\<close>: the query of \<open>_get_primary_key\<close>; \<open>Inr None\<close> is no row.
  \<^item> \<open>read_all_res\<close>: \<open>SELECT *\<close> of the whole table.
  \<^item> \<open>read_keyset_res chunk_size last_id\<close> and \<open>read_offset_res chunk_size offset\<close>:
    the chunk queries.
  \<^item> \<open>last_id_res df\<close>: \<open>df[pk_column].iloc[-1]\<close> on a chunk that is not empty.
  \<^item> \<open>truncate_res\<close>: \<open>TRUNCATE TABLE\<close> on the target.
  \<^item> \<open>insert_res df\<close>: the bulk insert of the rows \<open>df\<close>; a failed insert leaves
    the target table as it was.
  \<^item> \<open>cancel_request\<close>: see below.
  \<open>'k\<close> is the type of primary-key values.
\<close>

datatype create_outcome = Created | Create_failed string | Connect_failed string

record ('r, 'k) table_env =
  inspect_table_res :: "string + table_schema"
  create_table_res :: "string \<Rightarrow> create_outcome"
  row_count_res :: "string + int"
  primary_key_res :: "string + string option"
  read_all_res :: "string + 'r list"
  read_keyset_res :: "int \<Rightarrow> 'k option \<Rightarrow> string + 'r list"
  read_offset_res :: "int \<Rightarrow> int \<Rightarrow> string + 'r list"
  last_id_res :: "'r list \<Rightarrow> string + 'k option"
  truncate_res :: "string option"
  insert_res :: "'r list \<Rightarrow> string option"
  cancel_request :: "nat option"

text \<open>
  The environment of a job: whether creating the source or the target engine raises, and
  the environment of the table at each position of the table list.
\<close>

record ('r, 'k) world =
  source_engine_error :: "string option"
  target_engine_error :: "string option"
  table_envs :: "nat \<Rightarrow> ('r, 'k) table_env"

section \<open>Migrator: the public operations\<close>

datatype reply = Started string | Cancelling | Task_not_found

text \<open>
  \<open>migrate_tables\<close>: \<open>Inl\<close> is the \<open>ValueError\<close> for an unknown connection id,
  raised before anything is stored. \<open>Started task_id\<close> stands for the dictionary with
  status \<open>started\<close>. The connection configurations are left out. The argument
  \<open>progress_callback\<close> is \<open>None\<close> or an object; it is stored when it is an object
  whose truth value is \<open>True\<close>.
\<close>

definition migrate_tables ::
  "string \<Rightarrow> string \<Rightarrow> string \<Rightarrow> string \<Rightarrow> string list \<Rightarrow> 'cb callback option \<Rightarrow>
   string \<Rightarrow>
   ('cb, 'r) migrator \<Rightarrow> (string + reply) \<times> ('cb, 'r) migrator" where
  "migrate_tables source_connection_id target_connection_id source_database target_database
     tables progress_callback task_id m =
     (case engines m source_connection_id of
        None \<Rightarrow> (Inl (''No source connection with ID: '' @ source_connection_id), m)
      | Some source_db_type \<Rightarrow>
          (case engines m target_connection_id of
             None \<Rightarrow> (Inl (''No target connection with ID: '' @ target_connection_id), m)
           | Some target_db_type \<Rightarrow>
               (let m = (case progress_callback of
                           None \<Rightarrow> m
                         | Some cb \<Rightarrow>
                             if truth cb
                             then m\<lparr>progress_callbacks :=
                                      (progress_callbacks m)(task_id \<mapsto> cb)\<rparr>
                             else m);
                    m = m\<lparr>cancel_flags := (cancel_flags m)(task_id \<mapsto> False)\<rparr>;
                    m = m\<lparr>executor := executor m @
                           [Job source_connection_id target_connection_id source_database
                              target_database tables source_db_type target_db_type task_id]\<rparr>
                in (Inr (Started task_id), m))))"

text \<open>\<open>cancel_migration\<close>: \<open>Task_not_found\<close> stands for the dictionary with status \<open>error\<close>.\<close>

definition cancel_migration :: "string \<Rightarrow> ('cb, 'r) migrator \<Rightarrow> reply \<times> ('cb, 'r) migrator" where
  "cancel_migration task_id m =
     (if cancel_flags m task_id \<noteq> None
      then (Cancelling, m\<lparr>cancel_flags := (cancel_flags m)(task_id \<mapsto> True)\<rparr>)
      else (Task_not_found, m))"

text \<open>
  \<open>_update_progress\<close>: the callback registered for the task, if there is one and
  its truth value is \<open>True\<close>, is called with the data; an exception of the callback
  is caught and logged.
\<close>

definition update_progress ::
  "string \<Rightarrow> progress_data \<Rightarrow> ('cb, 'r) migrator \<Rightarrow> ('cb, 'r) migrator" where
  "update_progress task_id data m =
     (case progress_callbacks m task_id of
        None \<Rightarrow> m
      | Some cb \<Rightarrow> if truth cb then m\<lparr>calls := calls m @ [(cb, data)]\<rparr> else m)"

text \<open>The expression \<open>self.cancel_flags.get(task_id, False)\<close>.\<close>

definition cancel_requested :: "string \<Rightarrow> ('cb, 'r) migrator \<Rightarrow> bool" where
  "cancel_requested task_id m = (case cancel_flags m task_id of None \<Rightarrow> False | Some b \<Rightarrow> b)"

text \<open>
  The controlling thread may call \<open>cancel_migration\<close> while the worker runs. The worker
  reads the flag in two places only, at the top of the loop over the tables and at the
  top of the loop over the chunks, so what matters is between which two reads the call
  is made. \<open>cancel_request = Some i\<close> in the environment of a table says: while this
  table is copied, \<open>cancel_migration\<close> is called once the worker has read the flag
  \<open>i\<close> times in the chunk loop of this table and before it reads it again; when the
  table is copied with fewer reads (or in one piece), the call is made before the next
  table begins. \<open>None\<close> says that no call is made while this table is copied.
\<close>

definition cancel_arrives :: "bool \<Rightarrow> string \<Rightarrow> ('cb, 'r) migrator \<Rightarrow> ('cb, 'r) migrator" where
  "cancel_arrives now task_id m = (if now then snd (cancel_migration task_id m) else m)"

section \<open>Migrator: writing to the target\<close>

definition write_rows ::
  "('r, 'k) table_env \<Rightarrow> string \<Rightarrow> 'r list \<Rightarrow> ('cb, 'r) migrator \<Rightarrow>
   string option \<times> ('cb, 'r) migrator" where
  "write_rows env target_table df m =
     (case insert_res env df of
        Some e \<Rightarrow> (Some e, m)
      | None \<Rightarrow> (None, m\<lparr>target := (target m)(target_table := target m target_table @ df)\<rparr>))"

definition truncate_table ::
  "('r, 'k) table_env \<Rightarrow> string \<Rightarrow> ('cb, 'r) migrator \<Rightarrow> string option \<times> ('cb, 'r) migrator" where
  "truncate_table env target_table m =
     (case truncate_res env of
        Some e \<Rightarrow> (Some e, m)
      | None \<Rightarrow> (None, m\<lparr>target := (target m)(target_table := [])\<rparr>))"

text \<open>
  \<open>_insert_chunk\<close>. The result is the exception raised, if any, and the new state. For
  a target type that is none of the four, no branch is taken and nothing is written.
\<close>

definition insert_chunk ::
  "('r, 'k) table_env \<Rightarrow> 'r list \<Rightarrow> string \<Rightarrow> string \<Rightarrow> string option \<Rightarrow>
   ('cb, 'r) migrator \<Rightarrow> string option \<times> ('cb, 'r) migrator" where
  "insert_chunk env df table target_db_type target_schema m =
     (if target_db_type = ''postgresql'' then
        write_rows env (case target_schema of
                          None \<Rightarrow> table
                        | Some s \<Rightarrow> if s = [] then table else s @ ''.'' @ table) df m
      else if target_db_type = ''mysql'' then write_rows env table df m
      else if target_db_type = ''oracle'' then
        write_rows env (str_opt target_schema @ ''.'' @ table) df m
      else if target_db_type = ''sqlserver'' then write_rows env table df m
      else (None, m))"

section \<open>Migrator: copying one table\<close>

text \<open>
  The functions below leave out the parameters of the source that only shape the text
  of a query (the engines, the source type and schema, the name of the key column): what
  the query returns is in the environment. Each returns the exception with which the
  source function ends, if any, and the new state.
\<close>

text \<open>\<open>_estimate_row_count\<close>: any exception is logged and gives 0.\<close>

definition estimate_row_count :: "('r, 'k) table_env \<Rightarrow> int" where
  "estimate_row_count env = (case row_count_res env of Inl e \<Rightarrow> 0 | Inr n \<Rightarrow> n)"

text \<open>\<open>_get_primary_key\<close>: any exception is logged and gives \<open>None\<close>.\<close>

definition get_primary_key :: "('r, 'k) table_env \<Rightarrow> string option" where
  "get_primary_key env = (case primary_key_res env of Inl e \<Rightarrow> None | Inr r \<Rightarrow> r)"

text \<open>
  \<open>_migrate_table_single\<close>. Its \<open>except\<close> clause logs and raises again. The rows are
  read before the target is touched; for the targets MySQL and SQL Server the
  \<open>TRUNCATE\<close> is executed with no \<open>try\<close> of its own.
\<close>

definition migrate_table_single ::
  "('r, 'k) table_env \<Rightarrow> string \<Rightarrow> int \<Rightarrow> string \<Rightarrow> string option \<Rightarrow> string \<Rightarrow>
   ('cb, 'r) migrator \<Rightarrow> string option \<times> ('cb, 'r) migrator" where
  "migrate_table_single env table row_count target_db_type target_schema task_id m =
     (let m = update_progress task_id
                \<lparr>status = In_progress, current_table = Some table, tables_completed = None,
                 tables_failed = None, total_tables = None, current_progress = Some 0,
                 total_rows = Some row_count\<rparr> m
      in case read_all_res env of
           Inl e \<Rightarrow> (Some e, m)
         | Inr df \<Rightarrow>
             (let m = update_progress task_id
                        \<lparr>status = In_progress, current_table = Some table,
                         tables_completed = None, tables_failed = None, total_tables = None,
                         current_progress = Some 0, total_rows = Some (int (length df))\<rparr> m;
                  r = (if target_db_type = ''postgresql'' then
                         write_rows env (case target_schema of
                                           None \<Rightarrow> table
                                         | Some s \<Rightarrow> if s = [] then table else s @ ''.'' @ table)
                           df m
                       else if target_db_type = ''mysql'' then
                         (case truncate_table env table m of
                            (Some e, m) \<Rightarrow> (Some e, m)
                          | (None, m) \<Rightarrow> write_rows env table df m)
                       else if target_db_type = ''oracle'' then
                         write_rows env (str_opt target_schema @ ''.'' @ table) df m
                       else if target_db_type = ''sqlserver'' then
                         (case truncate_table env table m of
                            (Some e, m) \<Rightarrow> (Some e, m)
                          | (None, m) \<Rightarrow> write_rows env table df m)
                       else (None, m))
              in case r of
                   (Some e, m) \<Rightarrow> (Some e, m)
                 | (None, m) \<Rightarrow>
                     (None, update_progress task_id
                              \<lparr>status = In_progress, current_table = Some table,
                               tables_completed = None, tables_failed = None,
                               total_tables = None,
                               current_progress = Some (int (length df)),
                               total_rows = Some (int (length df))\<rparr> m)))"

text \<open>
  One pass through the body of a \<open>while\<close> loop either goes on with new values of the
  loop variables or leaves the loop, by \<open>return\<close>, \<open>break\<close> or an exception. Both
  chunk loops are the last statement of their function, so \<open>break\<close> and \<open>return\<close>
  end the function alike.
\<close>

datatype ('s, 'a) iteration = Continue 's | Exit 'a

text \<open>
  The body of the loop of \<open>_migrate_with_keyset_pagination\<close>. The loop variables are the
  state, \<open>rows_processed\<close> and \<open>last_id\<close>; the fourth component counts the reads of
  the cancel flag made so far in this loop and is there for \<open>cancel_request\<close> only.
\<close>

definition keyset_iteration ::
  "('r, 'k) table_env \<Rightarrow> string \<Rightarrow> int \<Rightarrow> int \<Rightarrow> string \<Rightarrow> string option \<Rightarrow> string \<Rightarrow>
   ('cb, 'r) migrator \<times> int \<times> 'k option \<times> nat \<Rightarrow>
   (('cb, 'r) migrator \<times> int \<times> 'k option \<times> nat, string option \<times> ('cb, 'r) migrator) iteration"
  where
  "keyset_iteration env table chunk_size row_count target_db_type target_schema task_id st =
     (case st of (m, rows_processed, last_id, polls) \<Rightarrow>
        (let m = cancel_arrives (cancel_request env = Some polls) task_id m
         in if cancel_requested task_id m then Exit (None, m)
            else
              (let m = update_progress task_id
                         \<lparr>status = In_progress, current_table = Some table,
                          tables_completed = None, tables_failed = None, total_tables = None,
                          current_progress = Some rows_processed,
                          total_rows = Some row_count\<rparr> m
               in case read_keyset_res env chunk_size last_id of
                    Inl e \<Rightarrow> Exit (Some e, m)
                  | Inr df \<Rightarrow>
                      if df = [] then Exit (None, m)
                      else
                        (case last_id_res env df of
                           Inl e \<Rightarrow> Exit (Some e, m)
                         | Inr last_id \<Rightarrow>
                             (case insert_chunk env df table target_db_type target_schema m of
                                (Some e, m) \<Rightarrow> Exit (Some e, m)
                              | (None, m) \<Rightarrow>
                                  (let rows_processed = rows_processed + int (length df);
                                       m = update_progress task_id
                                             \<lparr>status = In_progress, current_table = Some table,
                                              tables_completed = None, tables_failed = None,
                                              total_tables = None,
                                              current_progress = Some rows_processed,
                                              total_rows = Some row_count\<rparr> m
                                   in Continue (m, rows_processed, last_id, Suc polls)))))))"

text \<open>
  The body of the loop of \<open>_migrate_with_offset_pagination\<close>, with the loop variables
  state, \<open>rows_processed\<close> and \<open>offset\<close>, and the count of reads of the flag.
\<close>

definition offset_iteration ::
  "('r, 'k) table_env \<Rightarrow> string \<Rightarrow> int \<Rightarrow> int \<Rightarrow> string \<Rightarrow> string option \<Rightarrow> string \<Rightarrow>
   ('cb, 'r) migrator \<times> int \<times> int \<times> nat \<Rightarrow>
   (('cb, 'r) migrator \<times> int \<times> int \<times> nat, string option \<times> ('cb, 'r) migrator) iteration"
  where
  "offset_iteration env table chunk_size row_count target_db_type target_schema task_id st =
     (case st of (m, rows_processed, offset, polls) \<Rightarrow>
        (let m = cancel_arrives (cancel_request env = Some polls) task_id m
         in if cancel_requested task_id m then Exit (None, m)
            else
              (let m = update_progress task_id
                         \<lparr>status = In_progress, current_table = Some table,
                          tables_completed = None, tables_failed = None, total_tables = None,
                          current_progress = Some rows_processed,
                          total_rows = Some row_count\<rparr> m
               in case read_offset_res env chunk_size offset of
                    Inl e \<Rightarrow> Exit (Some e, m)
                  | Inr df \<Rightarrow>
                      if df = [] then Exit (None, m)
                      else
                        (case insert_chunk env df table target_db_type target_schema m of
                           (Some e, m) \<Rightarrow> Exit (Some e, m)
                         | (None, m) \<Rightarrow>
                             (let rows_processed = rows_processed + int (length df);
                                  offset = offset + chunk_size;
                                  m = update_progress task_id
                                        \<lparr>status = In_progress, current_table = Some table,
                                         tables_completed = None, tables_failed = None,
                                         total_tables = None,
                                         current_progress = Some rows_processed,
                                         total_rows = Some row_count\<rparr> m
                              in Continue (m, rows_processed, offset, Suc polls))))))"

text \<open>A pass that goes on has a larger \<open>rows_processed\<close>: the loops end.\<close>

lemma keyset_iteration_Continue:
  "keyset_iteration env table chunk_size row_count target_db_type target_schema task_id
     (m, rows_processed, last_id, polls) = Continue (m', rows_processed', last_id', polls')
   \<Longrightarrow> rows_processed < rows_processed'"
  by (auto simp: keyset_iteration_def Let_def
           split: if_splits sum.splits prod.splits option.splits)

lemma offset_iteration_Continue:
  "offset_iteration env table chunk_size row_count target_db_type target_schema task_id
     (m, rows_processed, offset, polls) = Continue (m', rows_processed', offset', polls')
   \<Longrightarrow> rows_processed < rows_processed'"
  by (auto simp: offset_iteration_def Let_def
           split: if_splits sum.splits prod.splits option.splits)

text \<open>The loop \<open>while rows_processed < row_count\<close> of \<open>_migrate_with_keyset_pagination\<close>.\<close>

function keyset_loop ::
  "('r, 'k) table_env \<Rightarrow> string \<Rightarrow> int \<Rightarrow> int \<Rightarrow> string \<Rightarrow> string option \<Rightarrow> string \<Rightarrow>
   ('cb, 'r) migrator \<times> int \<times> 'k option \<times> nat \<Rightarrow> string option \<times> ('cb, 'r) migrator" where
  "keyset_loop env table chunk_size row_count target_db_type target_schema task_id
     (m, rows_processed, last_id, polls) =
     (if rows_processed < row_count then
        (case keyset_iteration env table chunk_size row_count target_db_type target_schema
                task_id (m, rows_processed, last_id, polls) of
           Exit r \<Rightarrow> r
         | Continue st \<Rightarrow>
             keyset_loop env table chunk_size row_count target_db_type target_schema task_id st)
      else (None, m))"
  by pat_completeness auto
termination
proof (relation "measure (\<lambda>(env, table, chunk_size, row_count, target_db_type, target_schema,
                            task_id, m, rows_processed, last_id, polls).
                            nat (row_count - rows_processed))")
  show "wf (measure (\<lambda>(env :: ('r, 'k) table_env, table :: string, chunk_size :: int,
                       row_count, target_db_type :: string, target_schema :: string option,
                       task_id :: string, m :: ('cb, 'r) migrator, rows_processed,
                       last_id :: 'k option, polls :: nat).
                       nat (row_count - rows_processed)))"
    by simp
next
  fix env :: "('r, 'k) table_env" and table chunk_size row_count target_db_type target_schema
    task_id and m :: "('cb, 'r) migrator" and rows_processed last_id polls st
  assume "rows_processed < row_count"
    and "keyset_iteration env table chunk_size row_count target_db_type target_schema task_id
           (m, rows_processed, last_id, polls) = Continue st"
  then show "((env, table, chunk_size, row_count, target_db_type, target_schema, task_id, st),
              (env, table, chunk_size, row_count, target_db_type, target_schema, task_id,
               m, rows_processed, last_id, polls))
             \<in> measure (\<lambda>(env, table, chunk_size, row_count, target_db_type, target_schema,
                           task_id, m, rows_processed, last_id, polls).
                           nat (row_count - rows_processed))"
    using keyset_iteration_Continue
      [of env table chunk_size row_count target_db_type target_schema task_id m
          rows_processed last_id polls]
    by (cases st) auto
qed

text \<open>The loop \<open>while rows_processed < row_count\<close> of \<open>_migrate_with_offset_pagination\<close>.\<close>

function offset_loop ::
  "('r, 'k) table_env \<Rightarrow> string \<Rightarrow> int \<Rightarrow> int \<Rightarrow> string \<Rightarrow> string option \<Rightarrow> string \<Rightarrow>
   ('cb, 'r) migrator \<times> int \<times> int \<times> nat \<Rightarrow> string option \<times> ('cb, 'r) migrator" where
  "offset_loop env table chunk_size row_count target_db_type target_schema task_id
     (m, rows_processed, offset, polls) =
     (if rows_processed < row_count then
        (case offset_iteration env table chunk_size row_count target_db_type target_schema
                task_id (m, rows_processed, offset, polls) of
           Exit r \<Rightarrow> r
         | Continue st \<Rightarrow>
             offset_loop env table chunk_size row_count target_db_type target_schema task_id st)
      else (None, m))"
  by pat_completeness auto
termination
proof (relation "measure (\<lambda>(env, table, chunk_size, row_count, target_db_type, target_schema,
                            task_id, m, rows_processed, offset, polls).
                            nat (row_count - rows_processed))")
  show "wf (measure (\<lambda>(env :: ('r, 'k) table_env, table :: string, chunk_size :: int,
                       row_count, target_db_type :: string, target_schema :: string option,
                       task_id :: string, m :: ('cb, 'r) migrator, rows_processed,
                       offset :: int, polls :: nat).
                       nat (row_count - rows_processed)))"
    by simp
next
  fix env :: "('r, 'k) table_env" and table chunk_size row_count target_db_type target_schema
    task_id and m :: "('cb, 'r) migrator" and rows_processed offset polls st
  assume "rows_processed < row_count"
    and "offset_iteration env table chunk_size row_count target_db_type target_schema task_id
           (m, rows_processed, offset, polls) = Continue st"
  then show "((env, table, chunk_size, row_count, target_db_type, target_schema, task_id, st),
              (env, table, chunk_size, row_count, target_db_type, target_schema, task_id,
               m, rows_processed, offset, polls))
             \<in> measure (\<lambda>(env, table, chunk_size, row_count, target_db_type, target_schema,
                           task_id, m, rows_processed, offset, polls).
                           nat (row_count - rows_processed))"
    using offset_iteration_Continue
      [of env table chunk_size row_count target_db_type target_schema task_id m
          rows_processed offset polls]
    by (cases st) auto
qed

declare keyset_loop.simps [simp del] offset_loop.simps [simp del]

text \<open>
  \<open>_migrate_with_keyset_pagination\<close> and \<open>_migrate_with_offset_pagination\<close>: the
  loops from \<open>rows_processed = 0\<close>, with \<open>last_id = None\<close> and \<open>offset = 0\<close>.
\<close>

definition migrate_with_keyset_pagination ::
  "('r, 'k) table_env \<Rightarrow> string \<Rightarrow> int \<Rightarrow> int \<Rightarrow> string \<Rightarrow> string option \<Rightarrow> string \<Rightarrow>
   ('cb, 'r) migrator \<Rightarrow> string option \<times> ('cb, 'r) migrator" where
  "migrate_with_keyset_pagination env table chunk_size row_count target_db_type target_schema
     task_id m =
     keyset_loop env table chunk_size row_count target_db_type target_schema task_id
       (m, 0, None, 0)"

definition migrate_with_offset_pagination ::
  "('r, 'k) table_env \<Rightarrow> string \<Rightarrow> int \<Rightarrow> int \<Rightarrow> string \<Rightarrow> string option \<Rightarrow> string \<Rightarrow>
   ('cb, 'r) migrator \<Rightarrow> string option \<times> ('cb, 'r) migrator" where
  "migrate_with_offset_pagination env table chunk_size row_count target_db_type target_schema
     task_id m =
     offset_loop env table chunk_size row_count target_db_type target_schema task_id
       (m, 0, 0, 0)"

text \<open>
  \<open>_migrate_table_chunked\<close>: chunks of 100000 rows, by key when \<open>_get_primary_key\<close>
  gives a name that is not empty, by offset otherwise.
\<close>

definition migrate_table_chunked ::
  "('r, 'k) table_env \<Rightarrow> string \<Rightarrow> int \<Rightarrow> string \<Rightarrow> string option \<Rightarrow> string \<Rightarrow>
   ('cb, 'r) migrator \<Rightarrow> string option \<times> ('cb, 'r) migrator" where
  "migrate_table_chunked env table row_count target_db_type target_schema task_id m =
     (let chunk_size = 100000;
          pk_column = get_primary_key env
      in if pk_column \<noteq> None \<and> pk_column \<noteq> Some [] then
           migrate_with_keyset_pagination env table chunk_size row_count target_db_type
             target_schema task_id m
         else
           migrate_with_offset_pagination env table chunk_size row_count target_db_type
             target_schema task_id m)"

section \<open>Migrator: the job\<close>

text \<open>
  The \<open>try\<close> block inside the loop over the tables of \<open>_migrate_tables_sync\<close>, for one
  table: the exception that reaches the \<open>except\<close> clause of the block, if any, and the
  new state. A failure to execute the \<open>CREATE TABLE\<close> is caught at once and logged.
\<close>

definition copy_table ::
  "('r, 'k) table_env \<Rightarrow> string \<Rightarrow> nat \<Rightarrow> nat \<Rightarrow> string \<Rightarrow> string \<Rightarrow> string \<Rightarrow> string \<Rightarrow>
   ('cb, 'r) migrator \<Rightarrow> string option \<times> ('cb, 'r) migrator" where
  "copy_table env table tables_migrated n_tables source_db_type target_db_type target_database
     task_id m =
     (let m = update_progress task_id
                \<lparr>status = In_progress, current_table = Some table,
                 tables_completed = Some tables_migrated, tables_failed = None,
                 total_tables = Some n_tables, current_progress = None, total_rows = None\<rparr> m
      in case inspect_table_res env of
           Inl e \<Rightarrow> (Some e, m)
         | Inr table_schema \<Rightarrow>
             (let create_table_sql =
                    generate_create_table_sql table_schema source_db_type target_db_type
                      (Some (if target_db_type = ''oracle''
                             then upper target_database @ ''.'' @ table else table))
              in case create_table_res env create_table_sql of
                   Connect_failed e \<Rightarrow> (Some e, m)
                 | _ \<Rightarrow>
                     (let row_count = estimate_row_count env;
                          target_schema = (if target_db_type = ''oracle''
                                           then Some (upper target_database) else None);
                          r = (if row_count > 1000000
                               then migrate_table_chunked env table row_count target_db_type
                                      target_schema task_id m
                               else migrate_table_single env table row_count target_db_type
                                      target_schema task_id m)
                      in case r of
                           (Some e, m) \<Rightarrow> (Some e, m)
                         | (None, m) \<Rightarrow>
                             (None, update_progress task_id
                                      \<lparr>status = In_progress, current_table = None,
                                       tables_completed = Some (Suc tables_migrated),
                                       tables_failed = None, total_tables = Some n_tables,
                                       current_progress = None, total_rows = None\<rparr> m))))"

text \<open>
  The loop \<open>for table in tables\<close> of \<open>_migrate_tables_sync\<close> and the report that
  follows it. \<open>i\<close> is the position of the next table in the list of the job,
  \<open>n_tables\<close> is \<open>total_tables\<close>. A table that raises is appended to
  \<open>failed_tables\<close>; one that does not is counted in \<open>tables_migrated\<close>.
\<close>

fun tables_loop ::
  "(nat \<Rightarrow> ('r, 'k) table_env) \<Rightarrow> nat \<Rightarrow> string \<Rightarrow> string \<Rightarrow> string \<Rightarrow> string \<Rightarrow>
   nat \<Rightarrow> string list \<Rightarrow> nat \<Rightarrow> (string \<times> string) list \<Rightarrow>
   ('cb, 'r) migrator \<Rightarrow> ('cb, 'r) migrator" where
  "tables_loop envs n_tables source_db_type target_db_type target_database task_id
     i [] tables_migrated failed_tables m =
     update_progress task_id
       \<lparr>status = Completed, current_table = None, tables_completed = Some tables_migrated,
        tables_failed = Some failed_tables, total_tables = Some n_tables,
        current_progress = None, total_rows = None\<rparr> m"
| "tables_loop envs n_tables source_db_type target_db_type target_database task_id
     i (table # rest) tables_migrated failed_tables m =
     (if cancel_requested task_id m then
        update_progress task_id
          \<lparr>status = Cancelled, current_table = None, tables_completed = Some tables_migrated,
           tables_failed = Some failed_tables, total_tables = Some n_tables,
           current_progress = None, total_rows = None\<rparr> m
      else
        (case copy_table (envs i) table tables_migrated n_tables source_db_type target_db_type
                target_database task_id m of
           (exc, m) \<Rightarrow>
             (let m = cancel_arrives (cancel_request (envs i) \<noteq> None) task_id m
              in case exc of
                   None \<Rightarrow>
                     tables_loop envs n_tables source_db_type target_db_type target_database
                       task_id (Suc i) rest (Suc tables_migrated) failed_tables m
                 | Some e \<Rightarrow>
                     tables_loop envs n_tables source_db_type target_db_type target_database
                       task_id (Suc i) rest tables_migrated (failed_tables @ [(table, e)]) m)))"

text \<open>
  \<open>_migrate_tables_sync\<close>. An exception outside the \<open>try\<close> block of a table can only
  come from creating the two engines, before the loop; it is reported with status
  \<open>error\<close>.
\<close>

definition migrate_tables_sync ::
  "('r, 'k) world \<Rightarrow> string list \<Rightarrow> string \<Rightarrow> string \<Rightarrow> string \<Rightarrow> string \<Rightarrow>
   ('cb, 'r) migrator \<Rightarrow> ('cb, 'r) migrator" where
  "migrate_tables_sync w tables source_db_type target_db_type target_database task_id m =
     (let n_tables = length tables;
          failure = (case source_engine_error w of
                       Some e \<Rightarrow> Some e
                     | None \<Rightarrow> target_engine_error w)
      in case failure of
           Some e \<Rightarrow>
             update_progress task_id
               \<lparr>status = Error, current_table = None, tables_completed = Some 0,
                tables_failed = Some [], total_tables = Some n_tables,
                current_progress = None, total_rows = None\<rparr> m
         | None \<Rightarrow>
             tables_loop (table_envs w) n_tables source_db_type target_db_type target_database
               task_id 0 tables 0 [] m)"




section \<open>Notions used in the statements\<close>

text \<open>
  \<open>frame b task_id m m'\<close>: from \<open>m\<close> to \<open>m'\<close> the connections, the callbacks and the
  submitted jobs are the same, and the cancel flags are the same or, when \<open>b\<close> holds,
  differ by the flag of \<open>task_id\<close>, which was there before and is now set.
\<close>

definition frame :: "bool \<Rightarrow> string \<Rightarrow> ('cb, 'r) migrator \<Rightarrow> ('cb, 'r) migrator \<Rightarrow> bool" where
  "frame b task_id m m' =
     (progress_callbacks m' = progress_callbacks m \<and> engines m' = engines m \<and>
      executor m' = executor m \<and>
      (cancel_flags m' = cancel_flags m \<or>
       b \<and> cancel_flags m' = (cancel_flags m)(task_id \<mapsto> True) \<and>
         cancel_flags m task_id \<noteq> None))"





section \<open>Examples\<close>

text \<open>
  A migrator with two connections and nothing else, callbacks being named by strings
  and rows being numbers.
\<close>

definition idle_migrator :: "(string, nat) migrator" where
  "idle_migrator =
     \<lparr>engines = [''src'' \<mapsto> ''mysql'', ''tgt'' \<mapsto> ''postgresql''],
      progress_callbacks = Map.empty, cancel_flags = Map.empty, executor = [], calls = [],
      target = (\<lambda>t. [])\<rparr>"

text \<open>The same after \<open>migrate_tables\<close> for the task \<open>job\<close>, with the callback \<open>sink\<close>.\<close>

definition started_migrator :: "(string, nat) migrator" where
  "started_migrator =
     snd (migrate_tables ''src'' ''tgt'' ''shop'' ''shop'' [''t1'']
            (Some (Callback True ''sink'')) ''job'' idle_migrator)"

text \<open>
  A source table \<open>t1\<close> of five rows, the numbers 1 to 5, which are their own keys;
  every statement succeeds. The chunk queries answer as a table in key order does.
\<close>

definition ok_env :: "(nat, nat) table_env" where
  "ok_env =
     \<lparr>inspect_table_res =
        Inr \<lparr>table' = ''t1'',
             columns = [\<lparr>name = ''id'', type = ''INT'', nullable = False, default' = Some ''None''\<rparr>],
             primary_keys = [''id''], indices = []\<rparr>,
      create_table_res = (\<lambda>sql. Created),
      row_count_res = Inr 5,
      primary_key_res = Inr (Some ''id''),
      read_all_res = Inr [1, 2, 3, 4, 5],
      read_keyset_res =
        (\<lambda>chunk_size last_id.
           Inr (take (nat chunk_size)
                  (filter (\<lambda>r. case last_id of None \<Rightarrow> True | Some k \<Rightarrow> k < r)
                     [1, 2, 3, 4, 5]))),
      read_offset_res =
        (\<lambda>chunk_size offset. Inr (take (nat chunk_size) (drop (nat offset) [1, 2, 3, 4, 5]))),
      last_id_res = (\<lambda>df. Inr (Some (last df))),
      truncate_res = None,
      insert_res = (\<lambda>df. None),
      cancel_request = None\<rparr>"

definition ok_world :: "(nat, nat) world" where
  "ok_world =
     \<lparr>source_engine_error = None, target_engine_error = None, table_envs = (\<lambda>i. ok_env)\<rparr>"

text \<open>Worlds in which one statement fails, or a cancellation is requested.\<close>

definition truncate_fails_world :: "(nat, nat) world" where
  "truncate_fails_world =
     ok_world\<lparr>table_envs := (\<lambda>i. ok_env\<lparr>truncate_res := Some ''truncate denied''\<rparr>)\<rparr>"





section \<open>Properties of the string functions\<close>

lemma split_not_Nil: "split sep s \<noteq> []"
  by (induction s) (auto split: list.splits)

lemma split_length_ge2: "sep \<in> set s \<Longrightarrow> 2 \<le> length (split sep s)"
proof (induction s)
  case Nil
  then show ?case by simp
next
  case (Cons c cs)
  show ?case
  proof (cases "c = sep")
    case True
    have "1 \<le> length (split sep cs)"
      using split_not_Nil [of sep cs] by (cases "split sep cs") auto
    with True show ?thesis by simp
  next
    case False
    with Cons have "2 \<le> length (split sep cs)" by simp
    with False show ?thesis by (cases "split sep cs") auto
  qed
qed

lemma hd_split: "hd (split sep s) = takeWhile (\<lambda>c. c \<noteq> sep) s"
proof (induction s)
  case Nil
  then show ?case by simp
next
  case (Cons c cs)
  then show ?case
    using split_not_Nil [of sep cs] by (cases "split sep cs") auto
qed

lemma foldl_append_map: "foldl (\<lambda>defs x. defs @ [f x]) acc xs = acc @ map f xs"
  by (induction xs arbitrary: acc) auto

section \<open>Type mapping: what the lookup does\<close>

text \<open>
  Between two different engines the result is decided by one lookup of the base type,
  the text before the first parenthesis: when the base has an entry, the entry is returned
  as it is, and otherwise the lowercase input is returned. The branch that would append
  the precision is never taken, since it repeats the lookup that has just failed.
\<close>

lemma map_data_type_lookup:
  "source_db_type \<noteq> target_db_type \<Longrightarrow>
   map_data_type source_type source_db_type target_db_type =
     (case map_of (case map_of type_mappings (source_db_type, target_db_type) of
                     None \<Rightarrow> [] | Some d \<Rightarrow> d)
                  (lower (strip (takeWhile (\<lambda>c. c \<noteq> CHR ''('') (lower source_type)))) of
        None \<Rightarrow> lower source_type
      | Some t \<Rightarrow> if t = [] then lower source_type else t)"
  by (simp add: map_data_type_def Let_def hd_split split: option.splits)

text \<open>
  C2. The claim: for the input \<open>tinyint(1)\<close> the entry under the full key
  \<open>tinyint(1)\<close> is returned, \<open>boolean\<close> from MySQL to PostgreSQL. The code looks up
  the base \<open>tinyint\<close> only, which no dictionary has, and returns the input: the three
  \<open>tinyint(1)\<close> entries of the MySQL dictionaries are never reached.
\<close>

theorem map_data_type_tinyint1_unmapped:
  "map_data_type ''tinyint(1)'' ''mysql'' ''postgresql'' = ''tinyint(1)'' \<and>
   map_data_type ''tinyint(1)'' ''mysql'' ''oracle'' = ''tinyint(1)'' \<and>
   map_data_type ''TINYINT(1)'' ''mysql'' ''sqlserver'' = ''tinyint(1)''"
  by code_simp

text \<open>
  C4. The claim: a type whose base is in the dictionary and which carries a precision
  is mapped to the target base with the same precision. The code returns the entry of
  the base as soon as it is found, so \<open>varchar(255)\<close> from MySQL to PostgreSQL becomes
  \<open>varchar\<close>, without its precision.
\<close>

theorem map_data_type_drops_precision:
  "map_data_type ''varchar(255)'' ''mysql'' ''postgresql'' = ''varchar''"
  by code_simp

text \<open>
  C5. The claim: with equal source and target engine the input is returned unchanged.
  The code returns the lowercase form of the input.
\<close>

theorem map_data_type_same_engine_lowercases:
  "map_data_type ''VARCHAR(255)'' ''mysql'' ''mysql'' = ''varchar(255)''"
  by code_simp

text \<open>What the code does with equal engines, for every input.\<close>

lemma map_data_type_same_engine: "map_data_type source_type db db = lower source_type"
  by (simp add: map_data_type_def)

section \<open>CREATE TABLE: the statement and its lines\<close>

text \<open>
  \<open>join\<close> puts the separator between the parts and nowhere else, and \<open>split\<close> takes
  a joined text apart again when the separator ends with a character that no part
  holds.
\<close>

lemma join_concat:
  "join sep ps = (case ps of [] \<Rightarrow> [] | p # qs \<Rightarrow> p @ concat (map ((@) sep) qs))"
  by (induction sep ps rule: join.induct) simp_all

lemma split_no_sep: "c \<notin> set a \<Longrightarrow> split c a = [a]"
  by (induction a) auto

lemma split_append: "c \<notin> set a \<Longrightarrow> split c (a @ c # b) = a # split c b"
  by (induction a) auto

lemma split_join:
  assumes "ps \<noteq> []" and "\<forall>x \<in> set ps. c \<notin> set x" and "c \<notin> set p"
  shows "split c (join (p @ [c]) ps) = map (\<lambda>x. x @ p) (butlast ps) @ [last ps]"
  using assms
proof (induction "p @ [c]" ps rule: join.induct)
  case 1
  then show ?case by simp
next
  case (2 x)
  then show ?case by (simp add: split_no_sep)
next
  case (3 x y ys)
  have "split c (join (p @ [c]) (x # y # ys)) = split c ((x @ p) @ c # join (p @ [c]) (y # ys))"
    by simp
  also have "\<dots> = (x @ p) # split c (join (p @ [c]) (y # ys))"
    using 3 by (intro split_append) simp
  finally show ?case using 3 by simp
qed

lemma set_strip: "set (strip s) \<subseteq> set s"
proof -
  have "set (dropWhile isspace (rev (dropWhile isspace s))) \<subseteq> set (rev (dropWhile isspace s))"
    by (meson set_dropWhileD subsetI)
  moreover have "set (dropWhile isspace s) \<subseteq> set s"
    by (meson set_dropWhileD subsetI)
  ultimately show ?thesis by (auto simp: strip_def)
qed

lemma isspace_space: "isspace CHR '' ''"
  by (simp add: isspace_def)

lemma strip_keeps_prefix:
  assumes "xs \<noteq> []" and "\<not> isspace (hd xs)" and "\<not> isspace (last xs)"
  shows "\<exists>rest. strip (''    '' @ xs @ ys) = xs @ rest"
proof -
  obtain x xs' where xs: "xs = x # xs'" using assms(1) by (cases xs) auto
  have lead: "dropWhile isspace (''    '' @ xs @ ys) = xs @ ys"
    using assms(2) xs by (simp add: isspace_space)
  have "dropWhile isspace (rev (xs @ ys)) = dropWhile isspace (rev ys) @ rev xs"
  proof (cases "\<forall>y \<in> set (rev ys). isspace y")
    case True
    have "rev xs \<noteq> []" and "\<not> isspace (hd (rev xs))"
      using assms by (simp_all add: hd_rev)
    then have "dropWhile isspace (rev xs) = rev xs" by (cases "rev xs") auto
    moreover have "dropWhile isspace (rev ys) = []" using True by simp
    ultimately show ?thesis using True by (simp add: dropWhile_append)
  next
    case False
    then show ?thesis by (auto simp: dropWhile_append)
  qed
  then have "strip (''    '' @ xs @ ys) = xs @ rev (dropWhile isspace (rev ys))"
    unfolding strip_def lead by simp
  then show ?thesis by blast
qed


lemma split_append_all: "split c (a @ c # b) = split c a @ split c b"
proof (induction a)
  case Nil
  show ?case by simp
next
  case (Cons x a)
  obtain p ps where "split c a = p # ps"
    using split_not_Nil [of c a] by (cases "split c a") auto
  with Cons show ?case by simp
qed

lemma entries_join:
  "entries S source_db_type target_db_type =
     map (column_def source_db_type target_db_type) (columns S)
     @ (if primary_keys S = [] then []
        else [''    PRIMARY KEY ('' @ join '', '' (primary_keys S) @ '')''])"
  by (cases "primary_keys S") (simp_all add: entries_def join_concat)

lemma generate_create_table_sql_entries:
  "generate_create_table_sql S source_db_type target_db_type target_table_name =
     (if target_db_type = ''oracle'' then ''CREATE TABLE '' else ''CREATE TABLE IF NOT EXISTS '')
     @ (case target_table_name of None \<Rightarrow> table' S
        | Some n \<Rightarrow> if n = [] then table' S else n)
     @ '' (\<newline>''
     @ join '',\<newline>'' (entries S source_db_type target_db_type)
     @ ''\<newline>)''
     @ (if target_db_type = ''mysql'' then '' ENGINE=InnoDB DEFAULT CHARSET=utf8mb4'' else [])"
  by (simp add: generate_create_table_sql_def Let_def foldl_append_map entries_join)

lemma generate_create_table_sql_lines:
  assumes "CHR ''\<newline>'' \<notin> set (case target_table_name of None \<Rightarrow> table' S
                                    | Some n \<Rightarrow> if n = [] then table' S else n)"
    and "\<forall>e \<in> set (entries S source_db_type target_db_type). CHR ''\<newline>'' \<notin> set e"
    and "entries S source_db_type target_db_type \<noteq> []"
  shows "split CHR ''\<newline>''
           (generate_create_table_sql S source_db_type target_db_type target_table_name) =
         [(if target_db_type = ''oracle'' then ''CREATE TABLE ''
           else ''CREATE TABLE IF NOT EXISTS '')
          @ (case target_table_name of None \<Rightarrow> table' S
             | Some n \<Rightarrow> if n = [] then table' S else n)
          @ '' ('']
         @ map (\<lambda>e. e @ '','') (butlast (entries S source_db_type target_db_type))
         @ [last (entries S source_db_type target_db_type)]
         @ ['')'' @ (if target_db_type = ''mysql''
                    then '' ENGINE=InnoDB DEFAULT CHARSET=utf8mb4'' else [])]"
proof -
  let ?nl = "CHR ''\<newline>''"
  let ?n = "case target_table_name of None \<Rightarrow> table' S
            | Some n \<Rightarrow> if n = [] then table' S else n"
  let ?h = "(if target_db_type = ''oracle'' then ''CREATE TABLE ''
             else ''CREATE TABLE IF NOT EXISTS '') @ ?n @ '' (''"
  let ?t = "'')'' @ (if target_db_type = ''mysql''
                     then '' ENGINE=InnoDB DEFAULT CHARSET=utf8mb4'' else [])"
  let ?es = "entries S source_db_type target_db_type"
  have sql: "generate_create_table_sql S source_db_type target_db_type target_table_name =
               ?h @ ?nl # (join ('','' @ [?nl]) ?es @ ?nl # ?t)"
    by (simp add: generate_create_table_sql_entries)
  have h: "split ?nl ?h = [?h]"
    using assms(1) by (intro split_no_sep) auto
  have t: "split ?nl ?t = [?t]"
    by (intro split_no_sep) auto
  have b: "split ?nl (join ('','' @ [?nl]) ?es) = map (\<lambda>e. e @ '','') (butlast ?es) @ [last ?es]"
    using assms(3) assms(2) by (rule split_join) simp
  show ?thesis
    unfolding sql split_append_all h t b by simp
qed

lemma primary_key_clause_keys:
  assumes "primary_keys S \<noteq> []" and "\<forall>k \<in> set (primary_keys S). CHR '' '' \<notin> set k"
  shows "\<exists>inner. last (entries S source_db_type target_db_type) =
                   ''    PRIMARY KEY ('' @ inner @ '')'' \<and>
                 split CHR '' '' inner =
                   map (\<lambda>k. k @ '','') (butlast (primary_keys S)) @ [last (primary_keys S)]"
proof -
  have "last (entries S source_db_type target_db_type) =
          ''    PRIMARY KEY ('' @ join '', '' (primary_keys S) @ '')''"
    using assms(1) by (simp add: entries_join)
  moreover have "split CHR '' '' (join ('','' @ [CHR '' '']) (primary_keys S)) =
          map (\<lambda>k. k @ '','') (butlast (primary_keys S)) @ [last (primary_keys S)]"
    using assms by (rule split_join) simp
  ultimately show ?thesis by auto
qed

lemma column_def_unfold:
  "column_def source_db_type target_db_type col =
     strip (''    '' @ name col @ '' ''
            @ map_data_type (type col) source_db_type target_db_type @ '' ''
            @ (if nullable col then [] else ''NOT NULL'') @ '' ''
            @ (case default' col of
                 None \<Rightarrow> []
               | Some d \<Rightarrow> if d = [] \<or> lower d = ''null'' then [] else ''DEFAULT '' @ d))"
  by (cases "default' col") (simp_all add: column_def_def Let_def)

lemma column_def_no_default:
  "default' col = Some d \<Longrightarrow> d = [] \<or> lower d = ''null'' \<Longrightarrow>
   column_def source_db_type target_db_type col =
   column_def source_db_type target_db_type (col\<lparr>default' := None\<rparr>)"
  by (auto simp: column_def_unfold)

lemma column_def_name:
  assumes "name col \<noteq> []" and "\<not> isspace (hd (name col))" and "\<not> isspace (last (name col))"
  shows "\<exists>rest. column_def source_db_type target_db_type col = name col @ rest"
  unfolding column_def_unfold using assms by (rule strip_keeps_prefix)


text \<open>
  C6. The statement that \<open>generate_create_table_sql\<close> returns, in this order:
  \<^item> Read line by line, when neither the table name nor an entry holds a line break
    and there is an entry: the header line, then one line for each entry, each but the
    last followed by a comma, then the closing line. The entries are one definition for
    each column of the schema, in the order of the schema, and after them one
    \<open>PRIMARY KEY\<close> clause when the schema has key columns.
  \<^item> As a text: header, entries separated by comma and line break, closing parenthesis,
    suffix. The header has \<open>IF NOT EXISTS\<close> for every target but Oracle, and the
    suffix \<open>ENGINE=InnoDB DEFAULT CHARSET=utf8mb4\<close> is there for the target MySQL only.
  \<^item> The \<open>PRIMARY KEY\<close> clause holds, between its parentheses, the key columns of the
    schema in their order, each but the last followed by a comma (read word by word,
    for keys without a blank).
  \<^item> A column definition is the name, the mapped type, \<open>NOT NULL\<close> for a column that
    is not nullable and a \<open>DEFAULT\<close> clause, trimmed; a default that is empty or, in any
    case of the letters, \<open>null\<close> gives the definition of the column without default;
    and the definition begins with the name of the column.
\<close>

theorem create_table_statement:
  "(CHR ''\<newline>'' \<notin> set (case target_table_name of None \<Rightarrow> table' S
                                | Some n \<Rightarrow> if n = [] then table' S else n) \<and>
    (\<forall>e \<in> set (entries S source_db_type target_db_type). CHR ''\<newline>'' \<notin> set e) \<and>
    entries S source_db_type target_db_type \<noteq> [] \<longrightarrow>
    split CHR ''\<newline>''
      (generate_create_table_sql S source_db_type target_db_type target_table_name) =
      [(if target_db_type = ''oracle'' then ''CREATE TABLE ''
        else ''CREATE TABLE IF NOT EXISTS '')
       @ (case target_table_name of None \<Rightarrow> table' S
          | Some n \<Rightarrow> if n = [] then table' S else n)
       @ '' ('']
      @ map (\<lambda>e. e @ '','') (butlast (entries S source_db_type target_db_type))
      @ [last (entries S source_db_type target_db_type)]
      @ ['')'' @ (if target_db_type = ''mysql''
                 then '' ENGINE=InnoDB DEFAULT CHARSET=utf8mb4'' else [])]) \<and>
   generate_create_table_sql S source_db_type target_db_type target_table_name =
     (if target_db_type = ''oracle'' then ''CREATE TABLE '' else ''CREATE TABLE IF NOT EXISTS '')
     @ (case target_table_name of None \<Rightarrow> table' S
        | Some n \<Rightarrow> if n = [] then table' S else n)
     @ '' (\<newline>''
     @ (case entries S source_db_type target_db_type of
          [] \<Rightarrow> []
        | e # es \<Rightarrow> e @ concat (map ((@) '',\<newline>'') es))
     @ ''\<newline>)''
     @ (if target_db_type = ''mysql'' then '' ENGINE=InnoDB DEFAULT CHARSET=utf8mb4'' else []) \<and>
   (primary_keys S \<noteq> [] \<and> (\<forall>k \<in> set (primary_keys S). CHR '' '' \<notin> set k) \<longrightarrow>
    (\<exists>inner. last (entries S source_db_type target_db_type) =
               ''    PRIMARY KEY ('' @ inner @ '')'' \<and>
             split CHR '' '' inner =
               map (\<lambda>k. k @ '','') (butlast (primary_keys S)) @ [last (primary_keys S)])) \<and>
   column_def source_db_type target_db_type col =
     strip (''    '' @ name col @ '' ''
            @ map_data_type (type col) source_db_type target_db_type @ '' ''
            @ (if nullable col then [] else ''NOT NULL'') @ '' ''
            @ (case default' col of
                 None \<Rightarrow> []
               | Some d \<Rightarrow> if d = [] \<or> lower d = ''null'' then [] else ''DEFAULT '' @ d)) \<and>
   (default' col = Some d \<and> (d = [] \<or> lower d = ''null'') \<longrightarrow>
    column_def source_db_type target_db_type col =
    column_def source_db_type target_db_type (col\<lparr>default' := None\<rparr>)) \<and>
   (name col \<noteq> [] \<and> \<not> isspace (hd (name col)) \<and> \<not> isspace (last (name col)) \<longrightarrow>
    (\<exists>rest. column_def source_db_type target_db_type col = name col @ rest))"
proof (intro conjI impI)
  assume a: "CHR ''\<newline>'' \<notin> set (case target_table_name of None \<Rightarrow> table' S
                                | Some n \<Rightarrow> if n = [] then table' S else n) \<and>
    (\<forall>e \<in> set (entries S source_db_type target_db_type). CHR ''\<newline>'' \<notin> set e) \<and>
    entries S source_db_type target_db_type \<noteq> []"
  show "split CHR ''\<newline>''
      (generate_create_table_sql S source_db_type target_db_type target_table_name) =
      [(if target_db_type = ''oracle'' then ''CREATE TABLE ''
        else ''CREATE TABLE IF NOT EXISTS '')
       @ (case target_table_name of None \<Rightarrow> table' S
          | Some n \<Rightarrow> if n = [] then table' S else n)
       @ '' ('']
      @ map (\<lambda>e. e @ '','') (butlast (entries S source_db_type target_db_type))
      @ [last (entries S source_db_type target_db_type)]
      @ ['')'' @ (if target_db_type = ''mysql''
                 then '' ENGINE=InnoDB DEFAULT CHARSET=utf8mb4'' else [])]"
    by (rule generate_create_table_sql_lines
          [OF conjunct1 [OF a] conjunct1 [OF conjunct2 [OF a]] conjunct2 [OF conjunct2 [OF a]]])
next
  show "generate_create_table_sql S source_db_type target_db_type target_table_name =
     (if target_db_type = ''oracle'' then ''CREATE TABLE '' else ''CREATE TABLE IF NOT EXISTS '')
     @ (case target_table_name of None \<Rightarrow> table' S
        | Some n \<Rightarrow> if n = [] then table' S else n)
     @ '' (\<newline>''
     @ (case entries S source_db_type target_db_type of
          [] \<Rightarrow> []
        | e # es \<Rightarrow> e @ concat (map ((@) '',\<newline>'') es))
     @ ''\<newline>)''
     @ (if target_db_type = ''mysql'' then '' ENGINE=InnoDB DEFAULT CHARSET=utf8mb4'' else [])"
    by (simp only: generate_create_table_sql_entries join_concat)
next
  assume a: "primary_keys S \<noteq> [] \<and> (\<forall>k \<in> set (primary_keys S). CHR '' '' \<notin> set k)"
  show "\<exists>inner. last (entries S source_db_type target_db_type) =
               ''    PRIMARY KEY ('' @ inner @ '')'' \<and>
             split CHR '' '' inner =
               map (\<lambda>k. k @ '','') (butlast (primary_keys S)) @ [last (primary_keys S)]"
    by (rule primary_key_clause_keys [OF conjunct1 [OF a] conjunct2 [OF a]])
next
  show "column_def source_db_type target_db_type col =
     strip (''    '' @ name col @ '' ''
            @ map_data_type (type col) source_db_type target_db_type @ '' ''
            @ (if nullable col then [] else ''NOT NULL'') @ '' ''
            @ (case default' col of
                 None \<Rightarrow> []
               | Some d \<Rightarrow> if d = [] \<or> lower d = ''null'' then [] else ''DEFAULT '' @ d))"
    by (rule column_def_unfold)
next
  assume a: "default' col = Some d \<and> (d = [] \<or> lower d = ''null'')"
  show "column_def source_db_type target_db_type col =
    column_def source_db_type target_db_type (col\<lparr>default' := None\<rparr>)"
    by (rule column_def_no_default [OF conjunct1 [OF a] conjunct2 [OF a]])
next
  assume a: "name col \<noteq> [] \<and> \<not> isspace (hd (name col)) \<and> \<not> isspace (last (name col))"
  show "\<exists>rest. column_def source_db_type target_db_type col = name col @ rest"
    by (rule column_def_name
          [OF conjunct1 [OF a] conjunct1 [OF conjunct2 [OF a]] conjunct2 [OF conjunct2 [OF a]]])
qed

text \<open>
  The table \<open>people\<close> from MySQL to PostgreSQL: the lines of the statement, its entries,
  the default \<open>NULL\<close> of the first column left out, the name at the front, and the
  key read from the \<open>PRIMARY KEY\<close> clause.
\<close>

theorem create_table_statement_witness:
  "split CHR ''\<newline>'' (generate_create_table_sql people ''mysql'' ''postgresql'' None) =
     [''CREATE TABLE IF NOT EXISTS people (''] @
     map (\<lambda>e. e @ '','') (butlast (entries people ''mysql'' ''postgresql'')) @
     [last (entries people ''mysql'' ''postgresql'')] @ ['')''] \<and>
   entries people ''mysql'' ''postgresql'' =
     [''id integer NOT NULL'', ''name varchar'', ''active tinyint(1)  DEFAULT 1'',
      ''    PRIMARY KEY (id)''] \<and>
   column_def ''mysql'' ''postgresql'' (hd (columns people)) =
     column_def ''mysql'' ''postgresql'' ((hd (columns people))\<lparr>default' := None\<rparr>) \<and>
   (\<exists>rest. column_def ''mysql'' ''postgresql'' (hd (columns people)) = ''id'' @ rest) \<and>
   (\<exists>inner. last (entries people ''mysql'' ''postgresql'') = ''    PRIMARY KEY ('' @ inner @ '')'' \<and>
              split CHR '' '' inner = [''id''])"
proof -
  note t = create_table_statement
             [where S = people and source_db_type = "''mysql''"
                and target_db_type = "''postgresql''" and target_table_name = None
                and col = "hd (columns people)" and d = "''NULL''"]
  have e: "entries people ''mysql'' ''postgresql'' =
     [''id integer NOT NULL'', ''name varchar'', ''active tinyint(1)  DEFAULT 1'',
      ''    PRIMARY KEY (id)'']"
    by code_simp
  have h1: "CHR ''\<newline>'' \<notin> set (case None of None \<Rightarrow> table' people
                                | Some n \<Rightarrow> if n = [] then table' people else n) \<and>
    (\<forall>e \<in> set (entries people ''mysql'' ''postgresql''). CHR ''\<newline>'' \<notin> set e) \<and>
    entries people ''mysql'' ''postgresql'' \<noteq> []"
    unfolding e by (simp add: people_def)
  have h2: "default' (hd (columns people)) = Some ''NULL'' \<and>
            (''NULL'' = [] \<or> lower ''NULL'' = ''null'')"
    by code_simp
  have h3: "name (hd (columns people)) \<noteq> [] \<and> \<not> isspace (hd (name (hd (columns people)))) \<and>
            \<not> isspace (last (name (hd (columns people))))"
    by code_simp
  have n: "name (hd (columns people)) = ''id''" by code_simp
  have c1: "split CHR ''\<newline>'' (generate_create_table_sql people ''mysql'' ''postgresql'' None) =
     [''CREATE TABLE IF NOT EXISTS people (''] @
     map (\<lambda>e. e @ '','') (butlast (entries people ''mysql'' ''postgresql'')) @
     [last (entries people ''mysql'' ''postgresql'')] @ ['')'']"
    using mp [OF conjunct1 [OF t] h1] by (simp add: people_def)
  have c2: "column_def ''mysql'' ''postgresql'' (hd (columns people)) =
     column_def ''mysql'' ''postgresql'' ((hd (columns people))\<lparr>default' := None\<rparr>)"
    by (rule mp [OF conjunct1 [OF conjunct2 [OF conjunct2 [OF conjunct2 [OF conjunct2 [OF t]]]]] h2])
  have c3: "\<exists>rest. column_def ''mysql'' ''postgresql'' (hd (columns people)) = ''id'' @ rest"
    using mp [OF conjunct2 [OF conjunct2 [OF conjunct2 [OF conjunct2 [OF conjunct2 [OF t]]]]] h3]
    unfolding n .
  have p: "primary_keys people = [''id'']" by (simp add: people_def)
  have h4: "primary_keys people \<noteq> [] \<and> (\<forall>k \<in> set (primary_keys people). CHR '' '' \<notin> set k)"
    unfolding p by simp
  have c4: "\<exists>inner. last (entries people ''mysql'' ''postgresql'') = ''    PRIMARY KEY ('' @ inner @ '')'' \<and>
               split CHR '' '' inner = [''id'']"
    using mp [OF conjunct1 [OF conjunct2 [OF conjunct2 [OF t]]] h4] unfolding p by simp
  show ?thesis
    by (rule conjI [OF c1 conjI [OF e conjI [OF c2 conjI [OF c3 c4]]]])
qed

section \<open>Migrator: what the operations leave unchanged\<close>






lemma frame_requested:
  "frame b task_id m m' \<Longrightarrow> cancel_requested task_id m \<Longrightarrow> cancel_requested task_id m'"
  by (auto simp: frame_def cancel_requested_def)

lemma update_progress_fields [simp]:
  "progress_callbacks (update_progress t d m) = progress_callbacks m"
  "cancel_flags (update_progress t d m) = cancel_flags m"
  "engines (update_progress t d m) = engines m"
  "executor (update_progress t d m) = executor m"
  "target (update_progress t d m) = target m"
  by (simp_all add: update_progress_def split: option.splits)

lemma cancel_requested_update_progress [simp]:
  "cancel_requested task_id (update_progress t d m) = cancel_requested task_id m"
  by (simp add: cancel_requested_def)

lemma cancel_arrives_fields [simp]:
  "progress_callbacks (cancel_arrives b t m) = progress_callbacks m"
  "engines (cancel_arrives b t m) = engines m"
  "executor (cancel_arrives b t m) = executor m"
  "target (cancel_arrives b t m) = target m"
  "calls (cancel_arrives b t m) = calls m"
  by (simp_all add: cancel_arrives_def cancel_migration_def)


lemma cancel_arrives_False [simp]: "cancel_arrives False t m = m"
  by (simp add: cancel_arrives_def)


lemma truncate_table_fields:
  "truncate_table env n m = (r, m') \<Longrightarrow>
   progress_callbacks m' = progress_callbacks m \<and> cancel_flags m' = cancel_flags m \<and>
   engines m' = engines m \<and> executor m' = executor m \<and> calls m' = calls m"
  by (auto simp: truncate_table_def split: option.splits)









lemma frame_update_progress_iff [simp]:
  "frame b task_id (update_progress t d m) m' = frame b task_id m m'"
  "frame b task_id m (update_progress t d m') = frame b task_id m m'"
  by (simp_all add: frame_def)








section \<open>Starting and cancelling\<close>



text \<open>
  A call of \<open>migrate_tables\<close> that raises, for a connection id that is not known, has
  started nothing and leaves the migrator as it was.
\<close>

lemma failed_start_changes_nothing:
  "fst (migrate_tables source_connection_id target_connection_id source_database target_database
          tables progress_callback task_id m) = Inl e \<Longrightarrow>
   snd (migrate_tables source_connection_id target_connection_id source_database target_database
          tables progress_callback task_id m) = m"
  by (simp add: migrate_tables_def Let_def split: option.splits)

text \<open>
  C8, as amended. \<open>migrate_tables\<close> has no test for a task id that is in use. Called
  with two known connections and a task id that has a cancel flag, it returns
  \<open>started\<close>, sets the flag of the task to \<open>False\<close>, replaces the callback of the task
  when an object with the truth value \<open>True\<close> is passed and keeps it otherwise (for
  \<open>None\<close> and for an object with the truth value \<open>False\<close>), and submits one more job
  under the same id.
\<close>

theorem migrate_tables_reuses_task_id:
  "engines m source_connection_id = Some source_db_type \<Longrightarrow>
   engines m target_connection_id = Some target_db_type \<Longrightarrow>
   cancel_flags m task_id = Some flag \<Longrightarrow>
   fst (migrate_tables source_connection_id target_connection_id source_database target_database
          tables progress_callback task_id m) = Inr (Started task_id) \<and>
   cancel_flags
     (snd (migrate_tables source_connection_id target_connection_id source_database
             target_database tables progress_callback task_id m)) task_id = Some False \<and>
   progress_callbacks
     (snd (migrate_tables source_connection_id target_connection_id source_database
             target_database tables progress_callback task_id m)) task_id =
     (case progress_callback of
        None \<Rightarrow> progress_callbacks m task_id
      | Some cb \<Rightarrow> if truth cb then Some cb else progress_callbacks m task_id) \<and>
   executor
     (snd (migrate_tables source_connection_id target_connection_id source_database
             target_database tables progress_callback task_id m)) =
     executor m @ [Job source_connection_id target_connection_id source_database
                     target_database tables source_db_type target_db_type task_id]"
  by (simp add: migrate_tables_def Let_def split: option.splits)

theorem migrate_tables_reuses_task_id_witness:
  "engines (snd (cancel_migration ''job'' started_migrator)) ''src'' = Some ''mysql'' \<and>
   engines (snd (cancel_migration ''job'' started_migrator)) ''tgt'' = Some ''postgresql'' \<and>
   cancel_flags (snd (cancel_migration ''job'' started_migrator)) ''job'' = Some True \<and>
   fst (migrate_tables ''src'' ''tgt'' ''shop'' ''shop'' [''t2''] (Some (Callback True ''sink2'')) ''job''
          (snd (cancel_migration ''job'' started_migrator))) = Inr (Started ''job'') \<and>
   cancel_flags
     (snd (migrate_tables ''src'' ''tgt'' ''shop'' ''shop'' [''t2''] (Some (Callback True ''sink2'')) ''job''
             (snd (cancel_migration ''job'' started_migrator)))) ''job'' = Some False \<and>
   progress_callbacks
     (snd (migrate_tables ''src'' ''tgt'' ''shop'' ''shop'' [''t2''] (Some (Callback True ''sink2'')) ''job''
             (snd (cancel_migration ''job'' started_migrator)))) ''job'' = Some (Callback True ''sink2'')"
proof -
  have h1: "engines (snd (cancel_migration ''job'' started_migrator)) ''src'' = Some ''mysql''"
    by code_simp
  have h2: "engines (snd (cancel_migration ''job'' started_migrator)) ''tgt'' = Some ''postgresql''"
    by code_simp
  have h3: "cancel_flags (snd (cancel_migration ''job'' started_migrator)) ''job'' = Some True"
    by code_simp
  show ?thesis
    using h1 h2 h3
      migrate_tables_reuses_task_id [OF h1 h2 h3, of "''shop''" "''shop''" "[''t2'']"
        "Some (Callback True ''sink2'')"]
    by simp
qed

text \<open>
  The claim C8 as stated fails: the task \<open>job\<close> has been started with the callback
  \<open>sink\<close> and its cancellation has been requested; a second \<open>migrate_tables\<close> for
  \<open>job\<close> returns \<open>started\<close>, the request is gone and the callback is \<open>sink2\<close>.
\<close>

theorem restart_of_live_job_accepted:
  "progress_callbacks started_migrator ''job'' = Some (Callback True ''sink'') \<and>
   cancel_flags (snd (cancel_migration ''job'' started_migrator)) ''job'' = Some True \<and>
   fst (migrate_tables ''src'' ''tgt'' ''shop'' ''shop'' [''t2''] (Some (Callback True ''sink2'')) ''job''
          (snd (cancel_migration ''job'' started_migrator))) = Inr (Started ''job'') \<and>
   cancel_flags
     (snd (migrate_tables ''src'' ''tgt'' ''shop'' ''shop'' [''t2''] (Some (Callback True ''sink2'')) ''job''
             (snd (cancel_migration ''job'' started_migrator)))) ''job'' = Some False \<and>
   progress_callbacks
     (snd (migrate_tables ''src'' ''tgt'' ''shop'' ''shop'' [''t2''] (Some (Callback True ''sink2'')) ''job''
             (snd (cancel_migration ''job'' started_migrator)))) ''job'' = Some (Callback True ''sink2'')"
  by code_simp

section \<open>Copying a table in one piece\<close>

text \<open>
  When the schema is read and the target connection opens, the \<open>try\<close> block is the
  copy itself, chunked above a million rows, followed by the report of one more table.
\<close>

lemma copy_table_copies:
  "inspect_table_res env = Inr table_schema \<Longrightarrow>
   \<forall>e. create_table_res env
         (generate_create_table_sql table_schema source_db_type target_db_type
            (Some (if target_db_type = ''oracle''
                   then upper target_database @ ''.'' @ table else table)))
       \<noteq> Connect_failed e \<Longrightarrow>
   copy_table env table tables_migrated n_tables source_db_type target_db_type target_database
     task_id m =
     (case (if estimate_row_count env > 1000000
            then migrate_table_chunked env table (estimate_row_count env) target_db_type
                   (if target_db_type = ''oracle'' then Some (upper target_database) else None)
                   task_id
                   (update_progress task_id
                      \<lparr>status = In_progress, current_table = Some table,
                       tables_completed = Some tables_migrated, tables_failed = None,
                       total_tables = Some n_tables, current_progress = None,
                       total_rows = None\<rparr> m)
            else migrate_table_single env table (estimate_row_count env) target_db_type
                   (if target_db_type = ''oracle'' then Some (upper target_database) else None)
                   task_id
                   (update_progress task_id
                      \<lparr>status = In_progress, current_table = Some table,
                       tables_completed = Some tables_migrated, tables_failed = None,
                       total_tables = Some n_tables, current_progress = None,
                       total_rows = None\<rparr> m)) of
        (Some e, m) \<Rightarrow> (Some e, m)
      | (None, m) \<Rightarrow>
          (None, update_progress task_id
                   \<lparr>status = In_progress, current_table = None,
                    tables_completed = Some (Suc tables_migrated),
                    tables_failed = None, total_tables = Some n_tables,
                    current_progress = None, total_rows = None\<rparr> m))"
  by (cases "create_table_res env
               (generate_create_table_sql table_schema source_db_type target_db_type
                  (Some (if target_db_type = ''oracle''
                         then upper target_database @ ''.'' @ table else table)))")
     (simp_all add: copy_table_def Let_def)

lemma migrate_table_single_truncate_fails:
  "target_db_type = ''mysql'' \<or> target_db_type = ''sqlserver'' \<Longrightarrow>
   read_all_res env = Inr df \<Longrightarrow> truncate_res env = Some e \<Longrightarrow>
   fst (migrate_table_single env table row_count target_db_type target_schema task_id m) = Some e \<and>
   target (snd (migrate_table_single env table row_count target_db_type target_schema task_id m))
     = target m"
  by (auto simp: migrate_table_single_def Let_def truncate_table_def)

text \<open>
  C7, as amended. The target is MySQL or SQL Server, the table is copied in one piece,
  its rows have been read, and the \<open>TRUNCATE\<close> of the target table fails. Then the copy
  of the table ends with the exception of the \<open>TRUNCATE\<close>: the target is left as it
  was, no row being inserted, and the loop over the tables goes on to the next table with
  this table and the message appended to \<open>failed_tables\<close> and \<open>tables_migrated\<close>
  as before.
\<close>

theorem truncate_failure_fails_table:
  assumes tgt: "target_db_type = ''mysql'' \<or> target_db_type = ''sqlserver''"
    and inspect: "inspect_table_res (envs i) = Inr table_schema"
    and create: "\<forall>sql e. create_table_res (envs i) sql \<noteq> Connect_failed e"
    and small: "estimate_row_count (envs i) \<le> 1000000"
    and read: "read_all_res (envs i) = Inr df"
    and truncate: "truncate_res (envs i) = Some e"
    and live: "\<not> cancel_requested task_id m"
  shows "fst (copy_table (envs i) table tables_migrated n_tables source_db_type target_db_type
                target_database task_id m) = Some e \<and>
         target (snd (copy_table (envs i) table tables_migrated n_tables source_db_type
                        target_db_type target_database task_id m)) = target m \<and>
         tables_loop envs n_tables source_db_type target_db_type target_database task_id
           i (table # rest) tables_migrated failed_tables m =
         tables_loop envs n_tables source_db_type target_db_type target_database task_id
           (Suc i) rest tables_migrated (failed_tables @ [(table, e)])
           (cancel_arrives (cancel_request (envs i) \<noteq> None) task_id
              (snd (copy_table (envs i) table tables_migrated n_tables source_db_type
                      target_db_type target_database task_id m)))"
proof -
  let ?m1 = "update_progress task_id
               \<lparr>status = In_progress, current_table = Some table,
                tables_completed = Some tables_migrated, tables_failed = None,
                total_tables = Some n_tables, current_progress = None, total_rows = None\<rparr> m"
  let ?ts = "if target_db_type = ''oracle'' then Some (upper target_database) else None"
  let ?s = "migrate_table_single (envs i) table (estimate_row_count (envs i)) target_db_type
              ?ts task_id ?m1"
  let ?c = "copy_table (envs i) table tables_migrated n_tables source_db_type target_db_type
              target_database task_id m"
  from create have create': "\<forall>e. create_table_res (envs i)
         (generate_create_table_sql table_schema source_db_type target_db_type
            (Some (if target_db_type = ''oracle''
                   then upper target_database @ ''.'' @ table else table)))
       \<noteq> Connect_failed e"
    by simp
  have s: "fst ?s = Some e \<and> target (snd ?s) = target ?m1"
    using migrate_table_single_truncate_fails [OF tgt read truncate] .
  have c: "?c = (Some e, snd ?s)"
    using copy_table_copies [OF inspect create', of tables_migrated n_tables task_id m] small s
    by (cases ?s) auto
  then have c1: "fst ?c = Some e" and c2: "target (snd ?c) = target m"
    using s by simp_all
  have "tables_loop envs n_tables source_db_type target_db_type target_database task_id
           i (table # rest) tables_migrated failed_tables m =
         tables_loop envs n_tables source_db_type target_db_type target_database task_id
           (Suc i) rest tables_migrated (failed_tables @ [(table, e)])
           (cancel_arrives (cancel_request (envs i) \<noteq> None) task_id (snd ?c))"
    using live c by (simp add: Let_def)
  with c1 c2 show ?thesis by blast
qed

theorem truncate_failure_fails_table_witness:
  "status (snd (last (calls
     (tables_loop (table_envs truncate_fails_world) 1 ''postgresql'' ''mysql'' ''shop'' ''job''
        0 [''t1''] 0 [] started_migrator)))) = Completed \<and>
   tables_failed (snd (last (calls
     (tables_loop (table_envs truncate_fails_world) 1 ''postgresql'' ''mysql'' ''shop'' ''job''
        0 [''t1''] 0 [] started_migrator)))) = Some [(''t1'', ''truncate denied'')] \<and>
   fst (copy_table (table_envs truncate_fails_world 0) ''t1'' 0 1 ''postgresql'' ''mysql''
          ''shop'' ''job'' started_migrator) = Some ''truncate denied''"
proof -
  have h1: "''mysql'' = ''mysql'' \<or> ''mysql'' = ''sqlserver''" by simp
  have h2: "inspect_table_res (table_envs truncate_fails_world 0) =
              Inr \<lparr>table' = ''t1'',
                   columns = [\<lparr>name = ''id'', type = ''INT'', nullable = False,
                               default' = Some ''None''\<rparr>],
                   primary_keys = [''id''], indices = []\<rparr>"
    by (simp add: truncate_fails_world_def ok_env_def)
  have h3: "\<forall>sql e. create_table_res (table_envs truncate_fails_world 0) sql \<noteq> Connect_failed e"
    by (simp add: truncate_fails_world_def ok_env_def)
  have h4: "estimate_row_count (table_envs truncate_fails_world 0) \<le> 1000000"
    by (simp add: truncate_fails_world_def ok_env_def estimate_row_count_def)
  have h5: "read_all_res (table_envs truncate_fails_world 0) = Inr [1, 2, 3, 4, 5]"
    by (simp add: truncate_fails_world_def ok_env_def)
  have h6: "truncate_res (table_envs truncate_fails_world 0) = Some ''truncate denied''"
    by (simp add: truncate_fails_world_def ok_env_def)
  have h7: "\<not> cancel_requested ''job'' started_migrator"
    by code_simp
  have t: "status (snd (last (calls
     (tables_loop (table_envs truncate_fails_world) 1 ''postgresql'' ''mysql'' ''shop'' ''job''
        (Suc 0) [] 0 ([] @ [(''t1'', ''truncate denied'')])
        (cancel_arrives (cancel_request (table_envs truncate_fails_world 0) \<noteq> None) ''job''
           (snd (copy_table (table_envs truncate_fails_world 0) ''t1'' 0 1 ''postgresql''
                   ''mysql'' ''shop'' ''job'' started_migrator))))))) = Completed \<and>
   tables_failed (snd (last (calls
     (tables_loop (table_envs truncate_fails_world) 1 ''postgresql'' ''mysql'' ''shop'' ''job''
        (Suc 0) [] 0 ([] @ [(''t1'', ''truncate denied'')])
        (cancel_arrives (cancel_request (table_envs truncate_fails_world 0) \<noteq> None) ''job''
           (snd (copy_table (table_envs truncate_fails_world 0) ''t1'' 0 1 ''postgresql''
                   ''mysql'' ''shop'' ''job'' started_migrator))))))) =
     Some [(''t1'', ''truncate denied'')]"
    by code_simp
  show ?thesis
    using t truncate_failure_fails_table
      [where envs = "table_envs truncate_fails_world" and i = 0
         and target_db_type = "''mysql''" and task_id = "''job''" and m = started_migrator
         and table = "''t1''" and tables_migrated = 0 and n_tables = 1
         and source_db_type = "''postgresql''" and target_database = "''shop''"
         and rest = "[]" and failed_tables = "[]",
       OF h1 h2 h3 h4 h5 h6 h7]
    by simp
qed

text \<open>
  The claim C7 as stated fails: one table of five rows, the target MySQL, the
  \<open>TRUNCATE\<close> failing. The job ends with no table completed and the table in
  \<open>tables_failed\<close> for the \<open>TRUNCATE\<close>, and the target table has received no row.
\<close>

theorem truncate_failure_recorded:
  "truncate_res (table_envs truncate_fails_world 0) = Some ''truncate denied'' \<and>
   read_all_res (table_envs truncate_fails_world 0) = Inr [1, 2, 3, 4, 5] \<and>
   snd (last (calls (migrate_tables_sync truncate_fails_world [''t1''] ''postgresql'' ''mysql''
                       ''shop'' ''job'' started_migrator))) =
     \<lparr>status = Completed, current_table = None, tables_completed = Some 0,
      tables_failed = Some [(''t1'', ''truncate denied'')], total_tables = Some 1,
      current_progress = None, total_rows = None\<rparr> \<and>
   target (migrate_tables_sync truncate_fails_world [''t1''] ''postgresql'' ''mysql''
             ''shop'' ''job'' started_migrator) ''t1'' = []"
  by code_simp

section \<open>The chunk loops: rows written\<close>

text \<open>
  Both loops are total: each is defined with the measure \<open>row_count - rows_processed\<close>,
  which a pass that goes on decreases. What they write is bounded as follows.
\<close>

lemma write_rows_target:
  "write_rows env n df m = (r, m') \<Longrightarrow>
   length (target m' nm) \<le> length (target m nm) + length df"
  by (auto simp: write_rows_def split: option.splits)

lemma insert_chunk_target:
  "insert_chunk env df table target_db_type target_schema m = (r, m') \<Longrightarrow>
   length (target m' nm) \<le> length (target m nm) + length df"
  by (auto simp: insert_chunk_def split: if_splits dest: write_rows_target)

lemma write_rows_raises:
  "write_rows env n df m = (Some e, m') \<Longrightarrow> m' = m"
  by (auto simp: write_rows_def split: option.splits)

lemma insert_chunk_raises:
  "insert_chunk env df table target_db_type target_schema m = (Some e, m') \<Longrightarrow> m' = m"
  by (auto simp: insert_chunk_def split: if_splits dest: write_rows_raises)

lemma keyset_iteration_Continue_rows:
  assumes "keyset_iteration env table chunk_size row_count target_db_type target_schema task_id
             (m, rows_processed, last_id, polls) = Continue (m', rows_processed', last_id', polls')"
  shows "\<exists>df. read_keyset_res env chunk_size last_id = Inr df \<and> df \<noteq> [] \<and>
              rows_processed' = rows_processed + int (length df) \<and>
              length (target m' nm) \<le> length (target m nm) + length df"
  using assms
  by (auto simp: keyset_iteration_def Let_def
           split: if_splits sum.splits prod.splits option.splits
           dest!: insert_chunk_target [where nm = nm])

lemma keyset_iteration_Exit_rows:
  assumes "keyset_iteration env table chunk_size row_count target_db_type target_schema task_id
             (m, rows_processed, last_id, polls) = Exit (e, m')"
  shows "target m' = target m"
  using assms
  by (auto simp: keyset_iteration_def Let_def
           split: if_splits sum.splits prod.splits option.splits
           dest!: insert_chunk_raises)

lemma offset_iteration_Continue_rows:
  assumes "offset_iteration env table chunk_size row_count target_db_type target_schema task_id
             (m, rows_processed, offset, polls) = Continue (m', rows_processed', offset', polls')"
  shows "\<exists>df. read_offset_res env chunk_size offset = Inr df \<and> df \<noteq> [] \<and>
              rows_processed' = rows_processed + int (length df) \<and>
              offset' = offset + chunk_size \<and>
              length (target m' nm) \<le> length (target m nm) + length df"
  using assms
  by (auto simp: offset_iteration_def Let_def
           split: if_splits sum.splits prod.splits option.splits
           dest!: insert_chunk_target [where nm = nm])

lemma offset_iteration_Exit_rows:
  assumes "offset_iteration env table chunk_size row_count target_db_type target_schema task_id
             (m, rows_processed, offset, polls) = Exit (e, m')"
  shows "target m' = target m"
  using assms
  by (auto simp: offset_iteration_def Let_def
           split: if_splits sum.splits prod.splits option.splits
           dest!: insert_chunk_raises)

lemma keyset_loop_rows:
  assumes "0 < chunk_size"
    and "\<forall>last_id df. read_keyset_res env chunk_size last_id = Inr df \<longrightarrow>
           int (length df) \<le> chunk_size"
  shows "int (length (target (snd (keyset_loop env table chunk_size row_count target_db_type
                                     target_schema task_id st)) nm))
         \<le> int (length (target (fst st) nm))
            + (if fst (snd st) < row_count then row_count - fst (snd st) + chunk_size - 1 else 0)"
  using assms
proof (induction env table chunk_size row_count target_db_type target_schema task_id st
       rule: keyset_loop.induct)
  case (1 env table chunk_size row_count target_db_type target_schema task_id m
          rows_processed last_id polls)
  let ?it = "keyset_iteration env table chunk_size row_count target_db_type target_schema
               task_id (m, rows_processed, last_id, polls)"
  show ?case
  proof (cases "rows_processed < row_count")
    case False
    then show ?thesis by (simp add: keyset_loop.simps)
  next
    case True
    show ?thesis
    proof (cases ?it)
      case (Exit r)
      obtain e m' where r: "r = (e, m')" by (cases r) auto
      from Exit r have "target m' = target m"
        using keyset_iteration_Exit_rows by blast
      with True Exit r "1.prems" show ?thesis by (simp add: keyset_loop.simps)
    next
      case (Continue st')
      obtain m' rp' l' p' where st': "st' = (m', rp', l', p')" by (cases st') auto
      from Continue st' obtain df where
        df: "read_keyset_res env chunk_size last_id = Inr df" "df \<noteq> []"
            "rp' = rows_processed + int (length df)"
            "length (target m' nm) \<le> length (target m nm) + length df"
        using keyset_iteration_Continue_rows [of env table chunk_size row_count target_db_type
                target_schema task_id m rows_processed last_id polls m' rp' l' p' nm]
        by blast
      from df(1) "1.prems" have small: "int (length df) \<le> chunk_size" by blast
      have IH: "int (length (target (snd (keyset_loop env table chunk_size row_count
                   target_db_type target_schema task_id st')) nm))
                \<le> int (length (target m' nm))
                   + (if rp' < row_count then row_count - rp' + chunk_size - 1 else 0)"
        using "1.IH" [OF True Continue "1.prems"] by (simp add: st' cong: if_cong)
      have "keyset_loop env table chunk_size row_count target_db_type target_schema task_id
              (m, rows_processed, last_id, polls) =
            keyset_loop env table chunk_size row_count target_db_type target_schema task_id st'"
        using True Continue by (simp add: keyset_loop.simps)
      with IH df small True show ?thesis by (auto split: if_splits)
    qed
  qed
qed

lemma offset_loop_rows:
  assumes "0 < chunk_size"
    and "\<forall>offset df. read_offset_res env chunk_size offset = Inr df \<longrightarrow>
           int (length df) \<le> chunk_size"
  shows "int (length (target (snd (offset_loop env table chunk_size row_count target_db_type
                                     target_schema task_id st)) nm))
         \<le> int (length (target (fst st) nm))
            + (if fst (snd st) < row_count then row_count - fst (snd st) + chunk_size - 1 else 0)"
  using assms
proof (induction env table chunk_size row_count target_db_type target_schema task_id st
       rule: offset_loop.induct)
  case (1 env table chunk_size row_count target_db_type target_schema task_id m
          rows_processed offset polls)
  let ?it = "offset_iteration env table chunk_size row_count target_db_type target_schema
               task_id (m, rows_processed, offset, polls)"
  show ?case
  proof (cases "rows_processed < row_count")
    case False
    then show ?thesis by (simp add: offset_loop.simps)
  next
    case True
    show ?thesis
    proof (cases ?it)
      case (Exit r)
      obtain e m' where r: "r = (e, m')" by (cases r) auto
      from Exit r have "target m' = target m"
        using offset_iteration_Exit_rows by blast
      with True Exit r "1.prems" show ?thesis by (simp add: offset_loop.simps)
    next
      case (Continue st')
      obtain m' rp' o' p' where st': "st' = (m', rp', o', p')" by (cases st') auto
      from Continue st' obtain df where
        df: "read_offset_res env chunk_size offset = Inr df" "df \<noteq> []"
            "rp' = rows_processed + int (length df)"
            "length (target m' nm) \<le> length (target m nm) + length df"
        using offset_iteration_Continue_rows [of env table chunk_size row_count target_db_type
                target_schema task_id m rows_processed offset polls m' rp' o' p' nm]
        by blast
      from df(1) "1.prems" have small: "int (length df) \<le> chunk_size" by blast
      have IH: "int (length (target (snd (offset_loop env table chunk_size row_count
                   target_db_type target_schema task_id st')) nm))
                \<le> int (length (target m' nm))
                   + (if rp' < row_count then row_count - rp' + chunk_size - 1 else 0)"
        using "1.IH" [OF True Continue "1.prems"] by (simp add: st' cong: if_cong)
      have "offset_loop env table chunk_size row_count target_db_type target_schema task_id
              (m, rows_processed, offset, polls) =
            offset_loop env table chunk_size row_count target_db_type target_schema task_id st'"
        using True Continue by (simp add: offset_loop.simps)
      with IH df small True show ?thesis by (auto split: if_splits)
    qed
  qed
qed

lemma keyset_pagination_rows:
  assumes size: "0 < chunk_size" and count: "0 \<le> row_count"
    and keyset: "\<forall>last_id df. read_keyset_res env chunk_size last_id = Inr df \<longrightarrow>
                   int (length df) \<le> chunk_size"
  shows "int (length (target (snd (migrate_with_keyset_pagination env table chunk_size row_count
                                     target_db_type target_schema task_id m)) nm))
           \<le> int (length (target m nm)) + row_count + chunk_size - 1"
proof -
  have "int (length (target (snd (keyset_loop env table chunk_size row_count target_db_type
                                     target_schema task_id (m, 0, None, 0))) nm))
         \<le> int (length (target m nm))
            + (if 0 < row_count then row_count - 0 + chunk_size - 1 else 0)"
    using keyset_loop_rows [OF size keyset, of table row_count target_db_type target_schema
            task_id "(m, 0, None, 0)" nm]
    by (simp cong: if_cong)
  also have "\<dots> \<le> int (length (target m nm)) + row_count + chunk_size - 1"
    using size count by simp
  finally show ?thesis
    by (simp only: migrate_with_keyset_pagination_def)
qed


lemma offset_pagination_rows:
  assumes size: "0 < chunk_size" and count: "0 \<le> row_count"
    and offset: "\<forall>offset df. read_offset_res env chunk_size offset = Inr df \<longrightarrow>
                   int (length df) \<le> chunk_size"
  shows "int (length (target (snd (migrate_with_offset_pagination env table chunk_size row_count
                                     target_db_type target_schema task_id m)) nm))
           \<le> int (length (target m nm)) + row_count + chunk_size - 1"
proof -
  have "int (length (target (snd (offset_loop env table chunk_size row_count target_db_type
                                     target_schema task_id (m, 0, 0, 0))) nm))
         \<le> int (length (target m nm))
            + (if 0 < row_count then row_count - 0 + chunk_size - 1 else 0)"
    using offset_loop_rows [OF size offset, of table row_count target_db_type target_schema
            task_id "(m, 0, 0, 0)" nm]
    by (simp cong: if_cong)
  also have "\<dots> \<le> int (length (target m nm)) + row_count + chunk_size - 1"
    using size count by simp
  finally show ?thesis
    by (simp only: migrate_with_offset_pagination_def)
qed

lemma keyset_iteration_progress:
  assumes "keyset_iteration env table chunk_size row_count target_db_type target_schema
             task_id st = Continue st'"
  shows "fst (snd st) < fst (snd st') \<and>
         (\<exists>df. df \<noteq> [] \<and> fst (snd st') = fst (snd st) + int (length df) \<and>
               length (target (fst st') nm) \<le> length (target (fst st) nm) + length df)"
  using assms
  by (cases st; cases st')
     (auto simp: keyset_iteration_def Let_def
           split: if_splits sum.splits prod.splits option.splits
           dest!: insert_chunk_target [where nm = nm])

lemma offset_iteration_progress:
  assumes "offset_iteration env table chunk_size row_count target_db_type target_schema
             task_id st = Continue st'"
  shows "fst (snd st) < fst (snd st') \<and>
         (\<exists>df. df \<noteq> [] \<and> fst (snd st') = fst (snd st) + int (length df) \<and>
               length (target (fst st') nm) \<le> length (target (fst st) nm) + length df)"
  using assms
  by (cases st; cases st')
     (auto simp: offset_iteration_def Let_def
           split: if_splits sum.splits prod.splits option.splits
           dest!: insert_chunk_target [where nm = nm])

text \<open>
  C10. Let the chunk size be positive, the estimated row count not negative, and let no
  chunk query return more rows than the chunk size. Then each of the two chunked copies
  adds at most \<open>row_count + chunk_size - 1\<close> rows to any table of the target. A pass
  through the body of either loop that does not leave the loop has read a chunk that is
  not empty, has handed it to \<open>_insert_chunk\<close> without an exception, and has
  increased \<open>rows_processed\<close> by its length; the loops stop at the latest when
  \<open>rows_processed\<close> reaches \<open>row_count\<close>, which is how they are shown to end.
\<close>

theorem chunk_loops_bounded:
  assumes size: "0 < chunk_size" and count: "0 \<le> row_count"
    and keyset: "\<forall>last_id df. read_keyset_res env chunk_size last_id = Inr df \<longrightarrow>
                   int (length df) \<le> chunk_size"
    and offset: "\<forall>offset df. read_offset_res env chunk_size offset = Inr df \<longrightarrow>
                   int (length df) \<le> chunk_size"
  shows "int (length (target (snd (migrate_with_keyset_pagination env table chunk_size row_count
                                     target_db_type target_schema task_id m)) nm))
           \<le> int (length (target m nm)) + row_count + chunk_size - 1 \<and>
         int (length (target (snd (migrate_with_offset_pagination env table chunk_size row_count
                                     target_db_type target_schema task_id m)) nm))
           \<le> int (length (target m nm)) + row_count + chunk_size - 1 \<and>
         (\<forall>st st'. keyset_iteration env table chunk_size row_count target_db_type target_schema
                      task_id st = Continue st' \<longrightarrow>
                    fst (snd st) < fst (snd st') \<and>
                    (\<exists>df. df \<noteq> [] \<and> fst (snd st') = fst (snd st) + int (length df) \<and>
                          length (target (fst st') nm) \<le> length (target (fst st) nm) + length df)) \<and>
         (\<forall>st st'. offset_iteration env table chunk_size row_count target_db_type target_schema
                      task_id st = Continue st' \<longrightarrow>
                    fst (snd st) < fst (snd st') \<and>
                    (\<exists>df. df \<noteq> [] \<and> fst (snd st') = fst (snd st) + int (length df) \<and>
                          length (target (fst st') nm) \<le> length (target (fst st) nm) + length df))"
proof -
  note a = keyset_pagination_rows [OF size count keyset, of table target_db_type target_schema
             task_id m nm]
  note b = offset_pagination_rows [OF size count offset, of table target_db_type target_schema
             task_id m nm]
  have c: "\<forall>st st'. keyset_iteration env table chunk_size row_count target_db_type target_schema
                      task_id st = Continue st' \<longrightarrow>
                    fst (snd st) < fst (snd st') \<and>
                    (\<exists>df. df \<noteq> [] \<and> fst (snd st') = fst (snd st) + int (length df) \<and>
                          length (target (fst st') nm) \<le> length (target (fst st) nm) + length df)"
    using keyset_iteration_progress by blast
  have d: "\<forall>st st'. offset_iteration env table chunk_size row_count target_db_type target_schema
                      task_id st = Continue st' \<longrightarrow>
                    fst (snd st) < fst (snd st') \<and>
                    (\<exists>df. df \<noteq> [] \<and> fst (snd st') = fst (snd st) + int (length df) \<and>
                          length (target (fst st') nm) \<le> length (target (fst st) nm) + length df)"
    using offset_iteration_progress by blast
  show ?thesis
    by (rule conjI [OF a conjI [OF b conjI [OF c d]]])
qed

text \<open>
  Five source rows, an estimate of four and chunks of two: both loops copy two chunks
  and stop, within the bound of five.
\<close>

theorem chunk_loops_bounded_witness:
  "target (snd (migrate_with_keyset_pagination ok_env ''t1'' 2 4 ''mysql'' None ''job''
                  started_migrator)) ''t1'' = [1, 2, 3, 4] \<and>
   target (snd (migrate_with_offset_pagination ok_env ''t1'' 2 4 ''mysql'' None ''job''
                  started_migrator)) ''t1'' = [1, 2, 3, 4] \<and>
   int (length (target (snd (migrate_with_keyset_pagination ok_env ''t1'' 2 4 ''mysql'' None
                               ''job'' started_migrator)) ''t1''))
     \<le> int (length (target started_migrator ''t1'')) + 4 + 2 - 1 \<and>
   int (length (target (snd (migrate_with_offset_pagination ok_env ''t1'' 2 4 ''mysql'' None
                               ''job'' started_migrator)) ''t1''))
     \<le> int (length (target started_migrator ''t1'')) + 4 + 2 - 1"
proof -
  have h1: "(0::int) < 2" and h2: "(0::int) \<le> 4" by simp_all
  have h3: "\<forall>last_id df. read_keyset_res ok_env 2 last_id = Inr df \<longrightarrow> int (length df) \<le> 2"
    by (auto simp: ok_env_def)
  have h4: "\<forall>offset df. read_offset_res ok_env 2 offset = Inr df \<longrightarrow> int (length df) \<le> 2"
    by (auto simp: ok_env_def)
  have k: "target (snd (migrate_with_keyset_pagination ok_env ''t1'' 2 4 ''mysql'' None ''job''
                  started_migrator)) ''t1'' = [1, 2, 3, 4]"
    by code_simp
  have o: "target (snd (migrate_with_offset_pagination ok_env ''t1'' 2 4 ''mysql'' None ''job''
                  started_migrator)) ''t1'' = [1, 2, 3, 4]"
    by code_simp
  note t = chunk_loops_bounded [OF h1 h2 h3 h4, of "''t1''" "''mysql''" None "''job''"
             started_migrator "''t1''"]
  have a: "int (length (target (snd (migrate_with_keyset_pagination ok_env ''t1'' 2 4 ''mysql''
                                       None ''job'' started_migrator)) ''t1''))
             \<le> int (length (target started_migrator ''t1'')) + 4 + 2 - 1"
    by (rule conjunct1 [OF t])
  have b: "int (length (target (snd (migrate_with_offset_pagination ok_env ''t1'' 2 4 ''mysql''
                                       None ''job'' started_migrator)) ''t1''))
             \<le> int (length (target started_migrator ''t1'')) + 4 + 2 - 1"
    by (rule conjunct1 [OF conjunct2 [OF t]])
  show ?thesis
    by (rule conjI [OF k conjI [OF o conjI [OF a b]]])
qed

section \<open>Failures of single tables\<close>




























section \<open>Cancellation\<close>












end
